theory Spec2Isabelle
  imports Main "HOL-Library.AList" "HOL-Library.Multiset"
begin

section \<open>The stance data loader of \<^verbatim>\<open>transformer.ipynb\<close>\<close>

text \<open>
  The notebook defines two functions, \<^verbatim>\<open>_stance(path, topic=None)\<close> (with the nested
  helper \<^verbatim>\<open>clean_ascii\<close>) and \<^verbatim>\<open>stance(data_dir, topic=None)\<close>, and the global
  \<^verbatim>\<open>seed\<close>. They rest on three libraries: pandas (\<^verbatim>\<open>read_csv\<close>, column access,
  \<^verbatim>\<open>Series.apply\<close>, boolean-mask selection with \<^verbatim>\<open>.loc\<close>), numpy and scikit-learn
  (\<^verbatim>\<open>train_test_split\<close>). The library operations are modelled below by what they do on
  the values this code hands them; the two functions of the notebook are translated
  statement by statement on top of them.
\<close>

subsection \<open>Values, errors, data frames\<close>

text \<open>
  A cell of a frame read by \<^verbatim>\<open>read_csv\<close> (called without \<^verbatim>\<open>dtype\<close>) is a Python \<^verbatim>\<open>str\<close>,
  or a number where pandas has inferred a numeric column (every field of the column a
  numeral, as in the \<open>ID\<close> column), or the float \<^verbatim>\<open>nan\<close> for an empty field. The files are
  decoded as latin-1, so every character of a string cell has a code point below 256:
  exactly the range of \<^typ>\<open>char\<close>.
\<close>

datatype cell = Str string | Num int | NaN

text \<open>
  \<^verbatim>\<open>Path(data_dir) / name\<close> is kept as its two parts: which file the pair names (how
  pathlib normalises and joins them) is left to the file system below.
\<close>

type_synonym path = "string \<times> string"

text \<open>
  The Python exceptions this code can raise; \<open>KeyError\<close> carries the missing key. The last
  two are pandas' own, for an existing file that the parser refuses.
\<close>

datatype error =
    FileNotFoundError path
  | KeyError cell
  | TypeError
  | AttributeError string
  | NameError string
  | ValueError
  | EmptyDataError
  | ParserError

type_synonym series = "cell list"

text \<open>
  A data frame is column oriented, as in pandas: the columns in file order, each with its
  name. In a frame built by \<^verbatim>\<open>read_csv\<close> the names are distinct and the columns have one
  length (\<open>frame_ok\<close>).
\<close>

type_synonym dataframe = "(string \<times> series) list"

definition nrows :: "dataframe \<Rightarrow> nat" where
  "nrows df = (case df of [] \<Rightarrow> 0 | (_, s) # _ \<Rightarrow> length s)"

definition frame_ok :: "dataframe \<Rightarrow> bool" where
  "frame_ok df = (distinct (map fst df) \<and> list_all (\<lambda>(_, s). length s = nrows df) df)"

text \<open>
  The file system as \<^verbatim>\<open>read_csv\<close> sees it: no file at the path, or what pandas' parser
  makes of the file there, a frame or the parser's exception (\<open>EmptyDataError\<close> for a file
  of zero bytes, \<open>ParserError\<close> for rows it cannot split).
\<close>

type_synonym filesystem = "path \<Rightarrow> (error + dataframe) option"

definition read_csv :: "filesystem \<Rightarrow> path \<Rightarrow> error + dataframe" where
  "read_csv fs p = (case fs p of None \<Rightarrow> Inl (FileNotFoundError p) | Some parsed \<Rightarrow> parsed)"

text \<open>\<^verbatim>\<open>df['name']\<close>: a missing column raises \<open>KeyError\<close>.\<close>

definition getitem :: "dataframe \<Rightarrow> string \<Rightarrow> error + series" where
  "getitem df name = (case map_of df name of None \<Rightarrow> Inl (KeyError (Str name)) | Some s \<Rightarrow> Inr s)"

text \<open>\<^verbatim>\<open>df.name\<close>: a missing column raises \<open>AttributeError\<close>.\<close>

definition getattr :: "dataframe \<Rightarrow> string \<Rightarrow> error + series" where
  "getattr df name = (case map_of df name of None \<Rightarrow> Inl (AttributeError name) | Some s \<Rightarrow> Inr s)"

text \<open>\<^verbatim>\<open>df['name'] = s\<close>: replaces the column in place (appends it when new).\<close>

definition setitem :: "dataframe \<Rightarrow> string \<Rightarrow> series \<Rightarrow> dataframe" where
  "setitem df name s = AList.update name s df"

text \<open>
  \<^verbatim>\<open>Series.apply(f)\<close> and the list comprehension \<^verbatim>\<open>[f(s) for s in series]\<close>: \<open>f\<close> on every
  element from the first on; the first exception ends the traversal.
\<close>

fun traverse :: "('a \<Rightarrow> error + 'b) \<Rightarrow> 'a list \<Rightarrow> error + 'b list" where
  "traverse f [] = Inr []"
| "traverse f (x # xs) =
     (case f x of
        Inl e \<Rightarrow> Inl e
      | Inr y \<Rightarrow> (case traverse f xs of Inl e \<Rightarrow> Inl e | Inr ys \<Rightarrow> Inr (y # ys)))"

text \<open>\<^verbatim>\<open>series == topic\<close>: the boolean mask; neither a number nor \<^verbatim>\<open>nan\<close> equals a string.\<close>

definition eq_mask :: "series \<Rightarrow> string \<Rightarrow> bool list" where
  "eq_mask s topic = map (\<lambda>c. c = Str topic) s"

text \<open>\<^verbatim>\<open>df.loc[mask]\<close>: the rows whose mask is true, in every column, in order.\<close>

definition select :: "bool list \<Rightarrow> 'a list \<Rightarrow> 'a list" where
  "select bs s = map fst (filter snd (zip s bs))"

definition loc :: "dataframe \<Rightarrow> bool list \<Rightarrow> dataframe" where
  "loc df bs = map (\<lambda>(name, s). (name, select bs s)) df"

subsection \<open>\<^verbatim>\<open>_stance\<close>\<close>

definition py_ord :: "char \<Rightarrow> nat" where
  "py_ord c = of_char c"

text \<open>
  \<^verbatim>\<open>''.join(i for i in text if ord(i) < 128)\<close>. Iterating over a number (a Tweet column of
  numerals only) or over the float of an empty Tweet field raises \<open>TypeError\<close>.
\<close>

fun clean_ascii :: "cell \<Rightarrow> error + cell" where
  "clean_ascii (Str text) = Inr (Str (concat [[i]. i \<leftarrow> text, py_ord i < 128]))"
| "clean_ascii (Num k) = Inl TypeError"
| "clean_ascii NaN = Inl TypeError"

text \<open>
  Lines 2 and 3 of the body: \<^verbatim>\<open>orig['Tweet'] = orig['Tweet'].apply(clean_ascii)\<close>.
\<close>

definition clean_tweets :: "dataframe \<Rightarrow> error + dataframe" where
  "clean_tweets orig =
     (case getitem orig ''Tweet'' of
        Inl e \<Rightarrow> Inl e
      | Inr tw \<Rightarrow>
          (case traverse clean_ascii tw of
             Inl e \<Rightarrow> Inl e
           | Inr tw' \<Rightarrow> Inr (setitem orig ''Tweet'' tw')))"

text \<open>
  \<^verbatim>\<open>if topic is not None: df = df.loc[df['Target'] == topic]\<close>.
\<close>

definition filter_topic :: "dataframe \<Rightarrow> string option \<Rightarrow> error + dataframe" where
  "filter_topic df topic =
     (case topic of
        None \<Rightarrow> Inr df
      | Some t \<Rightarrow>
          (case getitem df ''Target'' of
             Inl e \<Rightarrow> Inl e
           | Inr tg \<Rightarrow> Inr (loc df (eq_mask tg t))))"

definition stances :: "string list" where
  "stances = [''AGAINST'', ''FAVOR'', ''NONE'', ''UNKNOWN'']"

text \<open>\<^verbatim>\<open>{s: i for i, s in enumerate(stances)}\<close>: a later entry would overwrite an earlier one.\<close>

definition class_nums :: "string \<rightharpoonup> int" where
  "class_nums = foldl (\<lambda>m (i, s). m(s \<mapsto> int i)) Map.empty (zip [0..<length stances] stances)"

text \<open>\<^verbatim>\<open>class_nums[s]\<close>: a key that is not in the dictionary raises \<open>KeyError\<close>.\<close>

definition lookup_class :: "cell \<Rightarrow> error + int" where
  "lookup_class s =
     (case s of
        NaN \<Rightarrow> Inl (KeyError NaN)
      | Num k \<Rightarrow> Inl (KeyError s)
      | Str k \<Rightarrow> (case class_nums k of None \<Rightarrow> Inl (KeyError s) | Some i \<Rightarrow> Inr i))"

text \<open>
  The rest of the body: \<^verbatim>\<open>X = df.Tweet.values\<close>,
  \<^verbatim>\<open>Y = np.array([class_nums[s] for s in df.Stance])\<close>, \<^verbatim>\<open>return X, Y\<close>.
\<close>

definition encode :: "dataframe \<Rightarrow> error + (series \<times> int list)" where
  "encode df =
     (case getattr df ''Tweet'' of
        Inl e \<Rightarrow> Inl e
      | Inr X \<Rightarrow>
          (case getattr df ''Stance'' of
             Inl e \<Rightarrow> Inl e
           | Inr st \<Rightarrow>
               (case traverse lookup_class st of
                  Inl e \<Rightarrow> Inl e
                | Inr Y \<Rightarrow> Inr (X, Y))))"

text \<open>
  \<^verbatim>\<open>_stance\<close> on the frame that \<^verbatim>\<open>read_csv\<close> returned (an Isabelle name cannot begin with an
  underscore, hence \<open>u_stance\<close>), and \<^verbatim>\<open>_stance(path, topic)\<close> itself.
\<close>

definition u_stance :: "dataframe \<Rightarrow> string option \<Rightarrow> error + (series \<times> int list)" where
  "u_stance orig topic =
     (case clean_tweets orig of
        Inl e \<Rightarrow> Inl e
      | Inr df0 \<Rightarrow>
          (case filter_topic df0 topic of
             Inl e \<Rightarrow> Inl e
           | Inr df \<Rightarrow> encode df))"

definition u_stance_path :: "filesystem \<Rightarrow> path \<Rightarrow> string option \<Rightarrow> error + (series \<times> int list)" where
  "u_stance_path fs path topic =
     (case read_csv fs path of Inl e \<Rightarrow> Inl e | Inr orig \<Rightarrow> u_stance orig topic)"

subsection \<open>\<^verbatim>\<open>train_test_split\<close>\<close>

text \<open>
  scikit-learn's \<^verbatim>\<open>train_test_split(X, Y, test_size=0.2, random_state=seed)\<close> on two arrays
  of one length \<open>n\<close>:
  \<^item> \<open>n_test = ceil(0.2 * n)\<close> and \<open>n_train = n - n_test\<close>. The product is taken in double
    precision; the double nearest to 0.2 exceeds 0.2 by \<open>0.2 / 2 ^ 54\<close>, so for \<open>n = 5 * k\<close>
    the exact product exceeds \<open>k\<close> by \<open>k / 2 ^ 54\<close>, less than half a unit in the last place
    of \<open>k\<close>, and rounds to \<open>k\<close>; for other \<open>n\<close> it stays strictly between two integers. So
    \<open>n_test\<close> is the ceiling of \<open>n / 5\<close>;
  \<^item> arrays of different lengths raise \<open>ValueError\<close>, and so does an empty training part;
  \<^item> \<open>RandomState(seed)\<close> raises \<open>ValueError\<close> unless \<open>0 \<le> seed < 2 ^ 32\<close>;
  \<^item> \<open>permutation = RandomState(seed).permutation(n)\<close>, the test indices are its first
    \<open>n_test\<close> entries and the training indices the rest;
  \<^item> the result is \<open>X[train], X[test], Y[train], Y[test]\<close>.
  numpy's generator is not part of this repository: the permutation it draws for a seed
  and a length is the parameter \<open>rng\<close>. What the theorems below need of it is stated where
  it is needed: that \<open>rng seed n\<close> is a permutation of \<open>0, ..., n - 1\<close>.
\<close>

definition n_test_of :: "nat \<Rightarrow> nat" where
  "n_test_of n = (n + 4) div 5"

definition train_test_split ::
  "(int \<Rightarrow> nat \<Rightarrow> nat list) \<Rightarrow> 'a list \<Rightarrow> 'b list \<Rightarrow> int \<Rightarrow>
     error + ('a list \<times> 'a list \<times> 'b list \<times> 'b list)" where
  "train_test_split rng X Y random_state =
     (let n = length X;
          n_test = n_test_of n;
          n_train = n - n_test
      in if length Y \<noteq> n then Inl ValueError
         else if n_train = 0 then Inl ValueError
         else if random_state < 0 \<or> 2 ^ 32 \<le> random_state then Inl ValueError
         else
           (let permutation = rng random_state n;
                ind_test = take n_test permutation;
                ind_train = take n_train (drop n_test permutation)
            in Inr (map ((!) X) ind_train, map ((!) X) ind_test,
                    map ((!) Y) ind_train, map ((!) Y) ind_test)))"

subsection \<open>\<^verbatim>\<open>stance\<close>\<close>

text \<open>
  The module's global variables that \<^verbatim>\<open>stance\<close> reads: \<^verbatim>\<open>seed\<close>, which the notebook
  binds (to 3535999445) in the cell after the one that defines \<^verbatim>\<open>stance\<close>. \<open>None\<close> is the
  name not being bound, which raises \<open>NameError\<close> where the name is evaluated.
\<close>

record globals =
  seed :: "int option"

definition trainfile :: string where
  "trainfile = ''semeval2016-task6-trainingdata.txt''"

definition testfile :: string where
  "testfile = ''SemEval2016-Task6-subtaskA-testdata.txt''"

text \<open>\<^verbatim>\<open>Path(data_dir) / name\<close>.\<close>

definition path_join :: "string \<Rightarrow> string \<Rightarrow> path" where
  "path_join data_dir name = (data_dir, name)"

text \<open>
  The two loops \<^verbatim>\<open>for t, s in zip(text, sent): tX.append(t); tY.append(s)\<close>.
\<close>

definition append_pairs :: "'a list \<Rightarrow> 'b list \<Rightarrow> 'a list \<times> 'b list" where
  "append_pairs text sent = foldl (\<lambda>(tX, tY) (t, s). (tX @ [t], tY @ [s])) ([], []) (zip text sent)"

text \<open>
  \<^verbatim>\<open>np.asarray(tY, dtype=np.int32)\<close>: the elements are class numbers, between 0 and 3
  (\<open>lookup_class_range\<close> below), which the conversion to 32 bits leaves as they are.
\<close>

definition asarray_int32 :: "int list \<Rightarrow> int list" where
  "asarray_int32 ys = ys"

text \<open>
  \<^verbatim>\<open>stance(data_dir, topic)\<close> returns \<^verbatim>\<open>(trX, trY), (vaX, vaY), (teX, )\<close>; the one-element
  tuple of the test group is modelled by its element.
\<close>

type_synonym split = "(series \<times> int list) \<times> (series \<times> int list) \<times> series"

definition stance ::
  "(int \<Rightarrow> nat \<Rightarrow> nat list) \<Rightarrow> globals \<Rightarrow> filesystem \<Rightarrow> string \<Rightarrow> string option \<Rightarrow> error + split" where
  "stance rng g fs data_dir topic =
     (case u_stance_path fs (path_join data_dir trainfile) topic of
        Inl e \<Rightarrow> Inl e
      | Inr (X, Y) \<Rightarrow>
          (case u_stance_path fs (path_join data_dir testfile) topic of
             Inl e \<Rightarrow> Inl e
           | Inr (teX, _) \<Rightarrow>
               (case seed g of
                  None \<Rightarrow> Inl (NameError ''seed'')
                | Some sd \<Rightarrow>
                    (case train_test_split rng X Y sd of
                       Inl e \<Rightarrow> Inl e
                     | Inr (tr_text, va_text, tr_sent, va_sent) \<Rightarrow>
                         (let (trX, trY) = append_pairs tr_text tr_sent;
                              (vaX, vaY) = append_pairs va_text va_sent
                          in Inr ((trX, asarray_int32 trY), (vaX, asarray_int32 vaY), teX))))))"

subsection \<open>Notions the statements use\<close>

text \<open>
  The rows a topic filter retains, as the specification words it: with a topic, the rows
  whose \<open>Target\<close> equals the topic string; without one, all rows. \<open>retained_rows\<close> lists
  their positions in the order of the file.
\<close>

definition retained :: "dataframe \<Rightarrow> string option \<Rightarrow> nat \<Rightarrow> bool" where
  "retained df topic i =
     (case topic of
        None \<Rightarrow> True
      | Some t \<Rightarrow> (case map_of df ''Target'' of None \<Rightarrow> False | Some G \<Rightarrow> G ! i = Str t))"

definition retained_rows :: "dataframe \<Rightarrow> string option \<Rightarrow> nat list" where
  "retained_rows df topic = filter (retained df topic) [0..<nrows df]"

text \<open>
  The specification's size of the validation part, \<^verbatim>\<open>round(valFraction * len(X))\<close> at the
  fraction 0.2 of the code: a fifth of \<open>n\<close> is never halfway between two integers, so
  rounding it to the nearest integer is the floor of \<open>n / 5 + 1 / 2\<close>.
\<close>

definition spec_round_fifth :: "nat \<Rightarrow> nat" where
  "spec_round_fifth n = (2 * n + 5) div 10"

subsection \<open>Example data\<close>

text \<open>
  A training file of six rows (one Tweet with the latin-1 character 233, one Target that
  differs from \<open>Atheism\<close> in case only, one row only on \<open>Hillary Clinton\<close>), a test file
  whose labels are all \<open>UNKNOWN\<close>, and a generator that rotates \<open>0, ..., n - 1\<close> by the
  seed. The \<open>ID\<close> columns are numerals only, so their cells are numbers.
\<close>

definition ex_train :: dataframe where
  "ex_train =
     [(''ID'', [Num 1, Num 2, Num 3, Num 4, Num 5, Num 6]),
      (''Target'', [Str ''Atheism'', Str ''Atheism'', Str ''Hillary Clinton'', Str ''Atheism'',
                    Str ''atheism'', Str ''Atheism'']),
      (''Tweet'', [Str (''caf'' @ [CHR 0xE9, CHR ''s'']), Str ''no gods'', Str ''vote'', Str ''#amen'',
                   Str ''hm'', Str ''ok'']),
      (''Stance'', [Str ''AGAINST'', Str ''FAVOR'', Str ''NONE'', Str ''AGAINST'', Str ''FAVOR'',
                    Str ''NONE''])]"

definition ex_test :: dataframe where
  "ex_test =
     [(''ID'', [Num 7, Num 8, Num 9]),
      (''Target'', [Str ''Atheism'', Str ''Hillary Clinton'', Str ''Atheism'']),
      (''Tweet'', [Str ''amen'', Str ''vote 2016'', Str ''why'']),
      (''Stance'', [Str ''UNKNOWN'', Str ''UNKNOWN'', Str ''UNKNOWN''])]"


definition ex_latin :: dataframe where
  "ex_latin =
     [(''Target'', [Str (''Caf'' @ [CHR 0xE9]), Str ''Caf'']),
      (''Tweet'', [Str (''ol'' @ [CHR 0xE9]), Str ''x'']),
      (''Stance'', [Str ''FAVOR'', Str ''NONE''])]"

text \<open>
  Test files: one with no row on \<open>Atheism\<close>, one with no \<open>Stance\<close> column, one whose \<open>Stance\<close>
  fields are empty.
\<close>

definition ex_test_other :: dataframe where
  "ex_test_other =
     [(''ID'', [Num 7]),
      (''Target'', [Str ''Hillary Clinton'']),
      (''Tweet'', [Str ''vote 2016'']),
      (''Stance'', [Str ''UNKNOWN''])]"

definition ex_test_nocolumn :: dataframe where
  "ex_test_nocolumn =
     [(''ID'', [Num 7, Num 8]),
      (''Target'', [Str ''Atheism'', Str ''Atheism'']),
      (''Tweet'', [Str ''amen'', Str ''why''])]"

definition ex_test_blank :: dataframe where
  "ex_test_blank =
     [(''ID'', [Num 7, Num 8]),
      (''Target'', [Str ''Atheism'', Str ''Atheism'']),
      (''Tweet'', [Str ''amen'', Str ''why'']),
      (''Stance'', [NaN, NaN])]"

text \<open>
  The four rows of \<open>ex_train\<close> on \<open>Atheism\<close> as a file of their own, in another directory
  with another test file.
\<close>

definition ex_atheism :: dataframe where
  "ex_atheism =
     [(''ID'', [Num 1, Num 2, Num 4, Num 6]),
      (''Target'', [Str ''Atheism'', Str ''Atheism'', Str ''Atheism'', Str ''Atheism'']),
      (''Tweet'', [Str (''caf'' @ [CHR 0xE9, CHR ''s'']), Str ''no gods'', Str ''#amen'', Str ''ok'']),
      (''Stance'', [Str ''AGAINST'', Str ''FAVOR'', Str ''AGAINST'', Str ''NONE''])]"

definition ex_fs_other :: filesystem where
  "ex_fs_other =
     map_of [(path_join ''d2'' trainfile, Inr ex_atheism), (path_join ''d2'' testfile, Inr ex_test_other)]"

definition ex_fs_with :: "dataframe \<Rightarrow> filesystem" where
  "ex_fs_with test =
     map_of [(path_join ''data'' trainfile, Inr ex_train), (path_join ''data'' testfile, Inr test)]"

definition ex_fs :: filesystem where
  "ex_fs =
     map_of [(path_join ''data'' trainfile, Inr ex_train), (path_join ''data'' testfile, Inr ex_test)]"

definition ex_rng :: "int \<Rightarrow> nat \<Rightarrow> nat list" where
  "ex_rng s n = (let k = nat s mod n in drop k [0..<n] @ take k [0..<n])"

definition ex_globals :: globals where
  "ex_globals = \<lparr>seed = Some 3535999445\<rparr>"

section \<open>Properties of the library operations\<close>

subsection \<open>Traversals\<close>


lemma traverse_Inr_list_all2:
  "traverse f xs = Inr ys \<Longrightarrow> list_all2 (\<lambda>x y. f x = Inr y) xs ys"
  by (induction xs arbitrary: ys) (auto split: sum.splits)

lemma list_all2_traverse:
  "list_all2 (\<lambda>x y. f x = Inr y) xs ys \<Longrightarrow> traverse f xs = Inr ys"
  by (induction xs ys rule: list_all2_induct) auto

lemma clean_ascii_filter: "clean_ascii (Str t) = Inr (Str (filter (\<lambda>c. py_ord c < 128) t))"
  by (induction t) auto

lemma clean_ascii_Inr: "clean_ascii c = Inr r \<Longrightarrow> \<exists>t. c = Str t \<and> r = Str (filter (\<lambda>c. py_ord c < 128) t)"
  by (cases c) (auto simp: clean_ascii_filter simp del: clean_ascii.simps(1))

lemma traverse_clean_ascii:
  "traverse clean_ascii T = Inr T' \<Longrightarrow>
     \<exists>ts. T = map Str ts \<and> T' = map (\<lambda>t. Str (filter (\<lambda>c. py_ord c < 128) t)) ts"
proof (induction T arbitrary: T')
  case Nil
  then show ?case by simp
next
  case (Cons c T)
  from Cons.prems obtain r R where r: "clean_ascii c = Inr r" and R: "traverse clean_ascii T = Inr R"
    and T': "T' = r # R"
    by (auto split: sum.splits)
  from Cons.IH[OF R] obtain ts where ts: "T = map Str ts" "R = map (\<lambda>t. Str (filter (\<lambda>c. py_ord c < 128) t)) ts"
    by blast
  from clean_ascii_Inr[OF r] obtain t where t: "c = Str t" "r = Str (filter (\<lambda>c. py_ord c < 128) t)"
    by blast
  have "c # T = map Str (t # ts)" "T' = map (\<lambda>t. Str (filter (\<lambda>c. py_ord c < 128) t)) (t # ts)"
    using t ts T' by simp_all
  then show ?case by (intro exI[of _ "t # ts"] conjI)
qed

lemma traverse_clean_ascii_Str:
  "traverse clean_ascii (map Str ts) = Inr (map (\<lambda>t. Str (filter (\<lambda>c. py_ord c < 128) t)) ts)"
  by (induction ts) (simp_all add: clean_ascii_filter del: clean_ascii.simps)

subsection \<open>Mask selection\<close>

lemma select_Nil [simp]: "select bs [] = []" "select [] s = []"
  by (simp_all add: select_def)

lemma select_Cons [simp]: "select (b # bs) (x # s) = (if b then x # select bs s else select bs s)"
  by (simp add: select_def)

lemma filter_upt_Suc:
  "filter P [0..<Suc n] = (if P 0 then [0] else []) @ map Suc (filter (\<lambda>i. P (Suc i)) [0..<n])"
proof -
  have "[0..<Suc n] = 0 # map Suc [0..<n]"
    by (simp add: upt_conv_Cons map_Suc_upt del: upt_Suc)
  then show ?thesis
    by (simp add: filter_map comp_def del: upt_Suc)
qed

lemma select_nth:
  "select bs s = map ((!) s) (filter (\<lambda>i. bs ! i) [0..<min (length s) (length bs)])"
proof (induction s arbitrary: bs)
  case Nil
  then show ?case by simp
next
  case (Cons x s)
  show ?case
  proof (cases bs)
    case Nil
    then show ?thesis by simp
  next
    case (Cons b bs')
    have "min (length (x # s)) (length bs) = Suc (min (length s) (length bs'))"
      using Cons by simp
    then show ?thesis
      using Cons Cons.IH[of bs'] by (simp add: filter_upt_Suc comp_def del: upt_Suc)
  qed
qed

lemma select_all_True: "length s \<le> length bs \<Longrightarrow> \<forall>b\<in>set bs. b \<Longrightarrow> select bs s = s"
proof (induction s arbitrary: bs)
  case Nil
  then show ?case by simp
next
  case (Cons x s)
  then obtain b bs' where bs: "bs = b # bs'" by (cases bs) auto
  with Cons.prems have "length s \<le> length bs'" "\<forall>b\<in>set bs'. b" "b" by auto
  with Cons.IH[of bs'] bs show ?case by simp
qed

lemma length_select: "length s = length bs \<Longrightarrow> length (select bs s) = length (filter id bs)"
  by (induction s bs rule: list_induct2) auto

subsection \<open>Columns of a frame and the stages of \<^verbatim>\<open>_stance\<close>\<close>

lemma class_nums_simps:
  "class_nums k = (if k = ''UNKNOWN'' then Some 3 else if k = ''NONE'' then Some 2
     else if k = ''FAVOR'' then Some 1 else if k = ''AGAINST'' then Some 0 else None)"
  by (simp add: class_nums_def stances_def upt_rec)

lemma map_of_setitem: "map_of (setitem df n s) k = (if k = n then Some s else map_of df k)"
  by (simp add: setitem_def update_conv')

lemma names_setitem: "map_of df n = Some s0 \<Longrightarrow> map fst (setitem df n s) = map fst df"
  by (simp add: setitem_def update_keys map_of_eq_Some_iff weak_map_of_SomeI image_iff)
     (metis map_of_SomeD fst_conv image_iff)

lemma map_of_loc: "map_of (loc df bs) k = map_option (select bs) (map_of df k)"
  by (induction df) (auto simp: loc_def)

lemma names_loc: "map fst (loc df bs) = map fst df"
  by (induction df) (auto simp: loc_def)

lemma clean_tweets_Inr:
  "clean_tweets orig = Inr df0 \<longleftrightarrow>
     (\<exists>ts. map_of orig ''Tweet'' = Some (map Str ts) \<and>
           df0 = setitem orig ''Tweet'' (map (\<lambda>t. Str (filter (\<lambda>c. py_ord c < 128) t)) ts))"
  by (auto simp: clean_tweets_def getitem_def traverse_clean_ascii_Str split: option.splits sum.splits
           dest: traverse_clean_ascii)

lemma filter_topic_Inr:
  "filter_topic df0 topic = Inr df \<longleftrightarrow>
     (case topic of None \<Rightarrow> df = df0
      | Some t \<Rightarrow> (\<exists>G. map_of df0 ''Target'' = Some G \<and> df = loc df0 (eq_mask G t)))"
  by (auto simp: filter_topic_def getitem_def split: option.splits sum.splits)

lemma encode_Inr:
  "encode df = Inr (X, Y) \<longleftrightarrow>
     (\<exists>S. map_of df ''Tweet'' = Some X \<and> map_of df ''Stance'' = Some S \<and>
          list_all2 (\<lambda>s y. lookup_class s = Inr y) S Y)"
  by (auto simp: encode_def getattr_def split: option.splits sum.splits
           dest: traverse_Inr_list_all2 list_all2_traverse)

lemma lookup_class_Inr:
  "lookup_class s = Inr y \<longleftrightarrow>
     (s = Str ''AGAINST'' \<and> y = 0) \<or> (s = Str ''FAVOR'' \<and> y = 1) \<or>
     (s = Str ''NONE'' \<and> y = 2) \<or> (s = Str ''UNKNOWN'' \<and> y = 3)"
  by (cases s) (auto simp: lookup_class_def class_nums_simps split: if_splits)


lemma frame_ok_length: "frame_ok df \<Longrightarrow> map_of df n = Some s \<Longrightarrow> length s = nrows df"
  by (auto simp: frame_ok_def list_all_iff dest!: map_of_SomeD)

lemma nrows_setitem:
  "frame_ok df \<Longrightarrow> map_of df n = Some s0 \<Longrightarrow> length s = length s0 \<Longrightarrow> nrows (setitem df n s) = nrows df"
  by (cases df) (auto simp: nrows_def setitem_def frame_ok_def split: if_splits)

lemma select_eq_mask_rows:
  assumes "length s = length G"
  shows "select (eq_mask G t) s = map ((!) s) (filter (\<lambda>i. G ! i = Str t) [0..<length G])"
proof -
  have "filter ((!) (eq_mask G t)) [0..<length G] = filter (\<lambda>i. G ! i = Str t) [0..<length G]"
    by (rule filter_cong) (auto simp: eq_mask_def)
  then show ?thesis
    using assms by (simp add: select_nth eq_mask_def)
qed

lemma filter_topic_column:
  assumes ok: "frame_ok df0" and f: "filter_topic df0 topic = Inr df" and c: "map_of df0 n = Some s"
  shows "map_of df n = Some (map ((!) s) (retained_rows df0 topic))"
proof (cases topic)
  case None
  have "length s = nrows df0" using ok c by (rule frame_ok_length)
  then have "map ((!) s) [0..<nrows df0] = s" using map_nth[of s] by simp
  then show ?thesis
    using None f c by (simp add: filter_topic_Inr retained_rows_def retained_def [abs_def])
next
  case (Some t)
  with f obtain G where G: "map_of df0 ''Target'' = Some G" and df: "df = loc df0 (eq_mask G t)"
    by (auto simp: filter_topic_Inr)
  have len: "length G = nrows df0" "length s = nrows df0"
    using ok G c by (auto dest: frame_ok_length)
  have "retained_rows df0 topic = filter (\<lambda>i. G ! i = Str t) [0..<length G]"
    using Some G len by (simp add: retained_rows_def retained_def [abs_def])
  then show ?thesis
    using df c len by (simp add: map_of_loc select_eq_mask_rows)
qed

lemma sorted_retained_rows: "sorted_wrt (<) (retained_rows df topic)"
  by (simp add: retained_rows_def sorted_wrt_filter)

lemma set_retained_rows: "set (retained_rows df topic) = {i. i < nrows df \<and> retained df topic i}"
  by (auto simp: retained_rows_def)

lemma frame_ok_setitem:
  assumes ok: "frame_ok df" and c: "map_of df n = Some s0" and len: "length s = length s0"
  shows "frame_ok (setitem df n s)"
proof -
  have n: "nrows (setitem df n s) = nrows df"
    using ok c len by (rule nrows_setitem)
  have s0: "length s0 = nrows df" using ok c by (rule frame_ok_length)
  have "set (setitem df n s) \<subseteq> insert (n, s) (set df)"
    unfolding setitem_def by (induction df) auto
  then have "\<forall>(k, v)\<in>set (setitem df n s). length v = nrows df"
    using ok len s0 by (auto simp: frame_ok_def list_all_iff)
  then show ?thesis
    using ok c n by (auto simp: frame_ok_def list_all_iff names_setitem)
qed

lemma retained_rows_cong:
  "nrows df' = nrows df \<Longrightarrow> map_of df' ''Target'' = map_of df ''Target'' \<Longrightarrow>
     retained_rows df' topic = retained_rows df topic"
  by (simp add: retained_rows_def retained_def [abs_def] cong: option.case_cong)

lemma u_stance_Inr:
  "u_stance orig topic = Inr (X, Y) \<longleftrightarrow>
     (\<exists>df0 df. clean_tweets orig = Inr df0 \<and> filter_topic df0 topic = Inr df \<and> encode df = Inr (X, Y))"
  by (auto simp: u_stance_def split: sum.splits)

text \<open>The shape of a successful \<open>u_stance\<close> on a well-formed frame.\<close>

lemma u_stance_rows:
  assumes ok: "frame_ok orig" and u: "u_stance orig topic = Inr (X, Y)"
  shows "\<exists>ts S. map_of orig ''Tweet'' = Some (map Str ts) \<and> map_of orig ''Stance'' = Some S \<and>
           length ts = nrows orig \<and> length S = nrows orig \<and>
           X = map (\<lambda>i. Str (filter (\<lambda>c. py_ord c < 128) (ts ! i))) (retained_rows orig topic) \<and>
           list_all2 (\<lambda>i y. lookup_class (S ! i) = Inr y) (retained_rows orig topic) Y"
proof -
  from u obtain df0 df where c: "clean_tweets orig = Inr df0" and f: "filter_topic df0 topic = Inr df"
    and e: "encode df = Inr (X, Y)"
    by (auto simp: u_stance_Inr)
  let ?strip = "\<lambda>t. Str (filter (\<lambda>c. py_ord c < 128) t)"
  from c obtain ts where T: "map_of orig ''Tweet'' = Some (map Str ts)"
    and df0: "df0 = setitem orig ''Tweet'' (map ?strip ts)"
    by (auto simp: clean_tweets_Inr)
  have lts: "length ts = nrows orig" using frame_ok_length[OF ok T] by simp
  have ok0: "frame_ok df0" unfolding df0 by (rule frame_ok_setitem[OF ok T]) simp
  have n0: "nrows df0 = nrows orig" unfolding df0 by (rule nrows_setitem[OF ok T]) simp
  have tg: "map_of df0 ''Target'' = map_of orig ''Target''" by (simp add: df0 map_of_setitem)
  have rr: "retained_rows df0 topic = retained_rows orig topic"
    using n0 tg by (rule retained_rows_cong)
  from e obtain S' where X: "map_of df ''Tweet'' = Some X" and S': "map_of df ''Stance'' = Some S'"
    and Y: "list_all2 (\<lambda>s y. lookup_class s = Inr y) S' Y"
    by (auto simp: encode_Inr)
  have "map_of df0 ''Tweet'' = Some (map ?strip ts)" by (simp add: df0 map_of_setitem)
  from filter_topic_column[OF ok0 f this] X rr
  have X': "X = map ((!) (map ?strip ts)) (retained_rows orig topic)" by simp
  have "\<forall>i\<in>set (retained_rows orig topic). i < length ts"
    using lts by (simp add: set_retained_rows)
  then have X'': "X = map (\<lambda>i. ?strip (ts ! i)) (retained_rows orig topic)"
    unfolding X' by simp
  obtain S where S: "map_of orig ''Stance'' = Some S"
  proof (cases "map_of orig ''Stance''")
    case None
    then have "map_of df0 ''Stance'' = None" by (simp add: df0 map_of_setitem)
    then have "map_of df ''Stance'' = None"
      using f by (auto simp: filter_topic_Inr map_of_loc split: option.splits)
    with S' show ?thesis by simp
  next
    case (Some S)
    then show ?thesis by (rule that)
  qed
  then have "map_of df0 ''Stance'' = Some S" by (simp add: df0 map_of_setitem)
  from filter_topic_column[OF ok0 f this] S' rr
  have "S' = map ((!) S) (retained_rows orig topic)" by simp
  with Y have Y': "list_all2 (\<lambda>i y. lookup_class (S ! i) = Inr y) (retained_rows orig topic) Y"
    by (simp add: list_all2_map1)
  have "length S = nrows orig" using ok S by (rule frame_ok_length)
  with T S lts X'' Y' show ?thesis by blast
qed

lemma select_all_False: "\<forall>b\<in>set bs. \<not> b \<Longrightarrow> select bs s = []"
  by (simp add: select_def filter_empty_conv) (auto dest: set_zip_rightD)

lemma select_eq_mask_self: "select (eq_mask G t) G = filter (\<lambda>g. g = Str t) G"
  by (induction G) (auto simp: eq_mask_def)

lemma loc_loc_same:
  assumes ok: "frame_ok df" and G: "map_of df ''Target'' = Some G"
  shows "loc (loc df (eq_mask G t)) (eq_mask (select (eq_mask G t) G) t) = loc df (eq_mask G t)"
proof -
  let ?m = "eq_mask G t"
  let ?m' = "eq_mask (select ?m G) t"
  have all: "\<forall>b\<in>set ?m'. b"
    by (auto simp: eq_mask_def select_eq_mask_self[unfolded eq_mask_def])
  have lenG: "length G = nrows df" using ok G by (rule frame_ok_length)
  have "select ?m' (select ?m s) = select ?m s" if "(n, s) \<in> set df" for n s
  proof -
    have "length s = nrows df" using ok that by (auto simp: frame_ok_def list_all_iff)
    then have "length (select ?m s) = length (select ?m G)"
      using lenG by (simp add: length_select eq_mask_def)
    then have "length (select ?m s) \<le> length ?m'" by (simp add: eq_mask_def)
    then show ?thesis using all by (rule select_all_True)
  qed
  then show ?thesis by (auto simp: loc_def)
qed



lemma lookup_class_range: "lookup_class s = Inr y \<Longrightarrow> 0 \<le> y \<and> y \<le> 3"
  by (auto simp: lookup_class_Inr)

subsection \<open>The split\<close>

lemma append_pairs_acc:
  "foldl (\<lambda>(tX, tY) (t, s). (tX @ [t], tY @ [s])) (a, b) zs = (a @ map fst zs, b @ map snd zs)"
  by (induction zs arbitrary: a b) auto

lemma append_pairs_eq: "length text = length sent \<Longrightarrow> append_pairs text sent = (text, sent)"
  by (simp add: append_pairs_def append_pairs_acc)

lemma train_test_split_Inr:
  "train_test_split rng X Y sd = Inr (a, b, c, d) \<longleftrightarrow>
     length Y = length X \<and> n_test_of (length X) < length X \<and> 0 \<le> sd \<and> sd < 2 ^ 32 \<and>
     a = map ((!) X) (take (length X - n_test_of (length X)) (drop (n_test_of (length X)) (rng sd (length X)))) \<and>
     b = map ((!) X) (take (n_test_of (length X)) (rng sd (length X))) \<and>
     c = map ((!) Y) (take (length X - n_test_of (length X)) (drop (n_test_of (length X)) (rng sd (length X)))) \<and>
     d = map ((!) Y) (take (n_test_of (length X)) (rng sd (length X)))"
  by (auto simp: train_test_split_def Let_def)

lemma train_test_split_Inl:
  "train_test_split rng X Y sd = Inl e \<longleftrightarrow>
     e = ValueError \<and>
     \<not> (length Y = length X \<and> n_test_of (length X) < length X \<and> 0 \<le> sd \<and> sd < 2 ^ 32)"
  by (auto simp: train_test_split_def Let_def)

lemma stance_Inr:
  "stance rng g fs data_dir topic = Inr (tr, va, te) \<longleftrightarrow>
     (\<exists>X Y teY sd.
        u_stance_path fs (path_join data_dir trainfile) topic = Inr (X, Y) \<and>
        u_stance_path fs (path_join data_dir testfile) topic = Inr (te, teY) \<and>
        seed g = Some sd \<and>
        train_test_split rng X Y sd = Inr (fst tr, fst va, snd tr, snd va))"
  by (cases tr; cases va)
     (auto simp: stance_def asarray_int32_def train_test_split_Inr train_test_split_Inl append_pairs_eq
           split: sum.splits option.splits prod.splits)

lemma perm_facts:
  assumes "mset p = mset [0..<n]"
  shows "length p = n" "distinct p" "set p = {..<n}"
proof -
  show "length p = n" using mset_eq_length[OF assms] by simp
  show "distinct p" using mset_eq_imp_distinct_iff[OF assms] by simp
  show "set p = {..<n}" using mset_eq_setD[OF assms] by auto
qed

lemma zip_as_map: "length X = length Y \<Longrightarrow> map (\<lambda>i. (X ! i, Y ! i)) [0..<length X] = zip X Y"
  by (rule nth_equalityI) auto

lemma zip_map_same: "zip (map f xs) (map g xs) = map (\<lambda>i. (f i, g i)) xs"
  by (induction xs) auto

lemma n_test_near_round: "int (n_test_of n) - int (spec_round_fifth n) \<in> {0, 1}"
  unfolding n_test_of_def spec_round_fifth_def by (simp add: zdiv_int [symmetric] del: of_nat_div) presburger

lemma n_test_of_less: "n_test_of n < n \<longleftrightarrow> 2 \<le> n"
  unfolding n_test_of_def by presburger

lemma train_test_split_small:
  "length X < 2 \<Longrightarrow> train_test_split rng X Y sd = Inl ValueError"
  by (simp add: train_test_split_Inl n_test_of_less)

lemma stance_eq:
  assumes "u_stance_path fs (path_join data_dir trainfile) topic = Inr (X, Y)"
    and "u_stance_path fs (path_join data_dir testfile) topic = Inr (teX, teY)"
    and "seed g = Some sd"
  shows "stance rng g fs data_dir topic =
           (case train_test_split rng X Y sd of
              Inl e \<Rightarrow> Inl e
            | Inr (a, b, c, d) \<Rightarrow> Inr ((a, c), (b, d), teX))"
proof (cases "train_test_split rng X Y sd")
  case (Inl e)
  with assms show ?thesis by (simp add: stance_def)
next
  case (Inr r)
  obtain a b c d where r: "r = (a, b, c, d)" by (cases r) auto
  have "stance rng g fs data_dir topic = Inr ((a, c), (b, d), teX)"
    using assms Inr r by (subst stance_Inr) simp
  with Inr r show ?thesis by simp
qed

lemma u_stance_lengths:
  assumes "frame_ok orig" and "u_stance orig topic = Inr (X, Y)"
  shows "length X = length Y"
proof -
  from u_stance_rows[OF assms] obtain ts S where
    X: "X = map (\<lambda>i. Str (filter (\<lambda>c. py_ord c < 128) (ts ! i))) (retained_rows orig topic)"
    and Y: "list_all2 (\<lambda>i y. lookup_class (S ! i) = Inr y) (retained_rows orig topic) Y"
    by blast
  show ?thesis using X list_all2_lengthD[OF Y] by simp
qed

subsection \<open>The example data, evaluated\<close>

lemmas eval_defs = u_stance_def clean_tweets_def getitem_def setitem_def filter_topic_def loc_def
  eq_mask_def select_def encode_def getattr_def lookup_class_def class_nums_def stances_def py_ord_def

lemma ex_train_ok: "frame_ok ex_train"
  by (simp add: frame_ok_def ex_train_def nrows_def)

lemma ex_train_atheism:
  "u_stance ex_train (Some ''Atheism'') =
     Inr ([Str ''cafs'', Str ''no gods'', Str ''#amen'', Str ''ok''], [0, 1, 0, 2])"
  by (simp add: ex_train_def eval_defs)

lemma ex_test_atheism: "u_stance ex_test (Some ''Atheism'') = Inr ([Str ''amen'', Str ''why''], [3, 3])"
  by (simp add: ex_test_def eval_defs)

lemma ex_paths:
  "ex_fs (path_join ''data'' trainfile) = Some (Inr ex_train)"
  "ex_fs (path_join ''data'' testfile) = Some (Inr ex_test)"
  by (simp_all add: ex_fs_def path_join_def trainfile_def testfile_def)

lemma ex_split:
  "train_test_split ex_rng [a, b, c, d] [a', b', c', d'] 3535999445 =
     Inr ([c, d, a], [b], [c', d', a'], [b'])"
  by (simp add: train_test_split_def n_test_of_def ex_rng_def Let_def upt_rec)

lemma ex_stance:
  "stance ex_rng ex_globals ex_fs ''data'' (Some ''Atheism'') =
     Inr (([Str ''#amen'', Str ''ok'', Str ''cafs''], [0, 2, 0]), ([Str ''no gods''], [1]),
          [Str ''amen'', Str ''why''])"
  by (simp add: stance_def u_stance_path_def read_csv_def ex_paths ex_train_atheism ex_test_atheism
        ex_globals_def ex_split append_pairs_def asarray_int32_def)

lemma ex_rng_perm: "mset (ex_rng sd n) = mset [0..<n]"
proof -
  have "mset (drop k xs @ take k xs) = mset xs" for k and xs :: "nat list"
  proof -
    have "mset (take k xs @ drop k xs) = mset xs" by simp
    then show ?thesis unfolding mset_append by (simp only: add.commute)
  qed
  then show ?thesis by (simp only: ex_rng_def Let_def)
qed

lemma ex_atheism_filter: "filter_topic ex_train (Some ''Atheism'') = Inr ex_atheism"
  by (simp add: ex_train_def ex_atheism_def eval_defs)

lemma ex_atheism_all:
  "u_stance ex_atheism None =
     Inr ([Str ''cafs'', Str ''no gods'', Str ''#amen'', Str ''ok''], [0, 1, 0, 2])"
  by (simp add: ex_atheism_def eval_defs)

lemma ex_test_other_none: "u_stance ex_test_other None = Inr ([Str ''vote 2016''], [3])"
  by (simp add: ex_test_other_def eval_defs)

lemma ex_test_other_atheism: "u_stance ex_test_other (Some ''Atheism'') = Inr ([], [])"
  by (simp add: ex_test_other_def eval_defs)

lemma ex_paths_other:
  "ex_fs_other (path_join ''d2'' trainfile) = Some (Inr ex_atheism)"
  "ex_fs_other (path_join ''d2'' testfile) = Some (Inr ex_test_other)"
  by (simp_all add: ex_fs_other_def path_join_def trainfile_def testfile_def)

lemma ex_paths_with:
  "ex_fs_with test (path_join ''data'' trainfile) = Some (Inr ex_train)"
  "ex_fs_with test (path_join ''data'' testfile) = Some (Inr test)"
  by (simp_all add: ex_fs_with_def path_join_def trainfile_def testfile_def)

lemma ex_stance_other:
  "stance ex_rng ex_globals ex_fs_other ''d2'' None =
     Inr (([Str ''#amen'', Str ''ok'', Str ''cafs''], [0, 2, 0]), ([Str ''no gods''], [1]),
          [Str ''vote 2016''])"
  by (simp add: stance_def u_stance_path_def read_csv_def ex_paths_other ex_atheism_all
        ex_test_other_none ex_globals_def ex_split append_pairs_def asarray_int32_def)

lemma ex_u_train: "u_stance_path ex_fs (path_join ''data'' trainfile) (Some ''Atheism'') =
     Inr ([Str ''cafs'', Str ''no gods'', Str ''#amen'', Str ''ok''], [0, 1, 0, 2])"
  by (simp add: u_stance_path_def read_csv_def ex_paths ex_train_atheism)

lemma ex_u_train_other: "u_stance_path ex_fs_other (path_join ''d2'' trainfile) None =
     Inr ([Str ''cafs'', Str ''no gods'', Str ''#amen'', Str ''ok''], [0, 1, 0, 2])"
  by (simp add: u_stance_path_def read_csv_def ex_paths_other ex_atheism_all)

lemma ex_train_all:
  "u_stance ex_train None =
     Inr ([Str ''cafs'', Str ''no gods'', Str ''vote'', Str ''#amen'', Str ''hm'', Str ''ok''],
          [0, 1, 2, 0, 1, 2])"
  by (simp add: ex_train_def eval_defs)



lemma ex_latin_clean:
  "clean_tweets ex_latin = Inr (setitem ex_latin ''Tweet'' [Str ''ol'', Str ''x''])"
  by (simp add: ex_latin_def eval_defs)

lemma ex_split0:
  "train_test_split ex_rng [a, b, c, d] [a', b', c', d'] 0 = Inr ([b, c, d], [a], [b', c', d'], [a'])"
  by (simp add: train_test_split_def n_test_of_def ex_rng_def Let_def upt_rec)

lemma ex_split1:
  "train_test_split ex_rng [a, b, c, d] [a', b', c', d'] 1 = Inr ([c, d, a], [b], [c', d', a'], [b'])"
  by (simp add: train_test_split_def n_test_of_def ex_rng_def Let_def upt_rec)

lemma ex_u_test: "u_stance_path ex_fs (path_join ''data'' testfile) (Some ''Atheism'') =
     Inr ([Str ''amen'', Str ''why''], [3, 3])"
  by (simp add: u_stance_path_def read_csv_def ex_paths ex_test_atheism)

lemma ex_train_hillary: "u_stance ex_train (Some ''Hillary Clinton'') = Inr ([Str ''vote''], [2])"
  by (simp add: ex_train_def eval_defs)

lemma ex_test_hillary: "u_stance ex_test (Some ''Hillary Clinton'') = Inr ([Str ''vote 2016''], [3])"
  by (simp add: ex_test_def eval_defs)

lemma ex_train_feminist: "u_stance ex_train (Some ''Feminist Movement'') = Inr ([], [])"
  by (simp add: ex_train_def eval_defs)

lemma ex_test_feminist: "u_stance ex_test (Some ''Feminist Movement'') = Inr ([], [])"
  by (simp add: ex_test_def eval_defs)

lemma ex_train_path: "ex_fs (path_join ''data'' trainfile) = Some (Inr ex_train)"
  by (rule ex_paths(1))

lemma ex_u_test_hillary: "u_stance_path ex_fs (path_join ''data'' testfile) (Some ''Hillary Clinton'') =
     Inr ([Str ''vote 2016''], [3])"
  by (simp add: u_stance_path_def read_csv_def ex_paths ex_test_hillary)

lemma ex_u_train_hillary: "u_stance_path ex_fs (path_join ''data'' trainfile) (Some ''Hillary Clinton'') =
     Inr ([Str ''vote''], [2])"
  by (simp add: u_stance_path_def read_csv_def ex_paths ex_train_hillary)

lemma ex_seed: "seed ex_globals = Some 3535999445"
  by (simp add: ex_globals_def)

lemma ex_u_feminist:
  "u_stance_path ex_fs (path_join ''data'' trainfile) (Some ''Feminist Movement'') = Inr ([], [])"
  "u_stance_path ex_fs (path_join ''data'' testfile) (Some ''Feminist Movement'') = Inr ([], [])"
  by (simp_all add: u_stance_path_def read_csv_def ex_paths ex_train_feminist ex_test_feminist)

lemma ex_u_with_other:
  "u_stance_path (ex_fs_with ex_test_other) (path_join ''data'' trainfile) (Some ''Atheism'') =
     Inr ([Str ''cafs'', Str ''no gods'', Str ''#amen'', Str ''ok''], [0, 1, 0, 2])"
  "u_stance_path (ex_fs_with ex_test_other) (path_join ''data'' testfile) (Some ''Atheism'') =
     Inr ([], [])"
  by (simp_all add: u_stance_path_def read_csv_def ex_paths_with ex_train_atheism ex_test_other_atheism)

lemma ex_test_other_stages:
  "clean_tweets ex_test_other = Inr ex_test_other"
  "getitem ex_test_other ''Target'' = Inr [Str ''Hillary Clinton'']"
  "getattr ex_test_other ''Stance'' = Inr [Str ''UNKNOWN'']"
  by (simp_all add: ex_test_other_def eval_defs)

section \<open>Properties of the loader\<close>

subsection \<open>C1: the split is a function of the loaded rows and of the global seed\<close>

text \<open>
  C1, as the code has it. \<^verbatim>\<open>stance\<close> has no seed and no validation fraction among its
  arguments: the fraction is the literal 0.2, and the seed is the module's global \<^verbatim>\<open>seed\<close>,
  read when the split is made. Two calls of \<^verbatim>\<open>stance\<close> that load the same \<open>(X, Y)\<close> from
  their training files and find the same value in the global return the same training
  and validation parts, whatever else differs between them (directory, topic, test file,
  the rest of the file system): the validation part is the rows of \<open>(X, Y)\<close> at the first
  \<open>ceil(n / 5)\<close> entries of the permutation drawn for that seed value and \<open>n = len(X)\<close>, the
  training part the rows at the remaining entries.
\<close>

theorem split_function_of_rows_and_global_seed:
  assumes "stance rng g1 fs1 dir1 topic1 = Inr ((trX1, trY1), (vaX1, vaY1), te1)"
    and "stance rng g2 fs2 dir2 topic2 = Inr ((trX2, trY2), (vaX2, vaY2), te2)"
    and "seed g1 = seed g2"
    and "u_stance_path fs1 (path_join dir1 trainfile) topic1 =
         u_stance_path fs2 (path_join dir2 trainfile) topic2"
  shows "(trX1, trY1) = (trX2, trY2) \<and> (vaX1, vaY1) = (vaX2, vaY2) \<and>
         (\<exists>X Y sd. u_stance_path fs1 (path_join dir1 trainfile) topic1 = Inr (X, Y) \<and>
            seed g1 = Some sd \<and>
            trX1 = map ((!) X) (take (length X - n_test_of (length X))
                                  (drop (n_test_of (length X)) (rng sd (length X)))) \<and>
            trY1 = map ((!) Y) (take (length X - n_test_of (length X))
                                  (drop (n_test_of (length X)) (rng sd (length X)))) \<and>
            vaX1 = map ((!) X) (take (n_test_of (length X)) (rng sd (length X))) \<and>
            vaY1 = map ((!) Y) (take (n_test_of (length X)) (rng sd (length X))))"
proof -
  from assms(1) obtain X Y sd where
    u: "u_stance_path fs1 (path_join dir1 trainfile) topic1 = Inr (X, Y)"
    and s: "seed g1 = Some sd"
    and t: "train_test_split rng X Y sd = Inr (trX1, vaX1, trY1, vaY1)"
    by (auto simp: stance_Inr)
  from assms(2) obtain X' Y' sd' where
    u': "u_stance_path fs2 (path_join dir2 trainfile) topic2 = Inr (X', Y')"
    and s': "seed g2 = Some sd'"
    and t': "train_test_split rng X' Y' sd' = Inr (trX2, vaX2, trY2, vaY2)"
    by (auto simp: stance_Inr)
  have "X' = X" "Y' = Y" "sd' = sd"
    using assms(3,4) u u' s s' by simp_all
  with t t' have same: "(trX1, trY1) = (trX2, trY2) \<and> (vaX1, vaY1) = (vaX2, vaY2)" by simp
  from t have
    "trX1 = map ((!) X) (take (length X - n_test_of (length X))
                                  (drop (n_test_of (length X)) (rng sd (length X))))"
    "trY1 = map ((!) Y) (take (length X - n_test_of (length X))
                                  (drop (n_test_of (length X)) (rng sd (length X))))"
    "vaX1 = map ((!) X) (take (n_test_of (length X)) (rng sd (length X)))"
    "vaY1 = map ((!) Y) (take (n_test_of (length X)) (rng sd (length X)))"
    by (simp_all add: train_test_split_Inr)
  with same u s show ?thesis by blast
qed

text \<open>
  Two calls that differ in directory, topic and test file, and load the same four rows.
\<close>

theorem split_function_of_rows_and_global_seed_witness:
  "stance ex_rng ex_globals ex_fs ''data'' (Some ''Atheism'') =
     Inr (([Str ''#amen'', Str ''ok'', Str ''cafs''], [0, 2, 0]), ([Str ''no gods''], [1]),
          [Str ''amen'', Str ''why'']) \<and>
   stance ex_rng ex_globals ex_fs_other ''d2'' None =
     Inr (([Str ''#amen'', Str ''ok'', Str ''cafs''], [0, 2, 0]), ([Str ''no gods''], [1]),
          [Str ''vote 2016'']) \<and>
   u_stance_path ex_fs (path_join ''data'' trainfile) (Some ''Atheism'') =
     u_stance_path ex_fs_other (path_join ''d2'' trainfile) None \<and>
   (\<exists>X Y sd. u_stance_path ex_fs (path_join ''data'' trainfile) (Some ''Atheism'') = Inr (X, Y) \<and>
      seed ex_globals = Some sd \<and>
      [Str ''#amen'', Str ''ok'', Str ''cafs''] =
        map ((!) X) (take (length X - n_test_of (length X))
                       (drop (n_test_of (length X)) (ex_rng sd (length X)))) \<and>
      [0, 2, 0] =
        map ((!) Y) (take (length X - n_test_of (length X))
                       (drop (n_test_of (length X)) (ex_rng sd (length X)))) \<and>
      [Str ''no gods''] = map ((!) X) (take (n_test_of (length X)) (ex_rng sd (length X))) \<and>
      [1] = map ((!) Y) (take (n_test_of (length X)) (ex_rng sd (length X))))"
proof -
  have e: "u_stance_path ex_fs (path_join ''data'' trainfile) (Some ''Atheism'') =
           u_stance_path ex_fs_other (path_join ''d2'' trainfile) None"
    by (simp only: ex_u_train ex_u_train_other)
  note t = split_function_of_rows_and_global_seed [OF ex_stance ex_stance_other refl e]
  from ex_stance ex_stance_other e t [THEN conjunct2, THEN conjunct2] show ?thesis
    by (intro conjI)
qed

text \<open>
  The parts do depend on state outside the arguments: the same call, on the same files,
  with the global bound to 0 and then to 1.
\<close>

theorem split_depends_on_global_seed_counterexample:
  "stance ex_rng \<lparr>seed = Some 0\<rparr> ex_fs ''data'' (Some ''Atheism'') =
     Inr (([Str ''no gods'', Str ''#amen'', Str ''ok''], [1, 0, 2]), ([Str ''cafs''], [0]),
          [Str ''amen'', Str ''why'']) \<and>
   stance ex_rng \<lparr>seed = Some 1\<rparr> ex_fs ''data'' (Some ''Atheism'') =
     Inr (([Str ''#amen'', Str ''ok'', Str ''cafs''], [0, 2, 0]), ([Str ''no gods''], [1]),
          [Str ''amen'', Str ''why'']) \<and>
   stance ex_rng \<lparr>seed = Some 0\<rparr> ex_fs ''data'' (Some ''Atheism'') \<noteq>
   stance ex_rng \<lparr>seed = Some 1\<rparr> ex_fs ''data'' (Some ''Atheism'')"
proof -
  have a: "stance ex_rng \<lparr>seed = Some 0\<rparr> ex_fs ''data'' (Some ''Atheism'') =
     Inr (([Str ''no gods'', Str ''#amen'', Str ''ok''], [1, 0, 2]), ([Str ''cafs''], [0]),
          [Str ''amen'', Str ''why''])"
    by (simp add: stance_eq [OF ex_u_train ex_u_test] ex_split0)
  have b: "stance ex_rng \<lparr>seed = Some 1\<rparr> ex_fs ''data'' (Some ''Atheism'') =
     Inr (([Str ''#amen'', Str ''ok'', Str ''cafs''], [0, 2, 0]), ([Str ''no gods''], [1]),
          [Str ''amen'', Str ''why''])"
    by (simp add: stance_eq [OF ex_u_train ex_u_test] ex_split1)
  have "stance ex_rng \<lparr>seed = Some 0\<rparr> ex_fs ''data'' (Some ''Atheism'') \<noteq>
        stance ex_rng \<lparr>seed = Some 1\<rparr> ex_fs ''data'' (Some ''Atheism'')"
    unfolding a b by simp
  with a b show ?thesis by (intro conjI)
qed

text \<open>
  The seed is not a parameter of \<^verbatim>\<open>stance\<close>: the name is looked up among the module's globals
  when \<^verbatim>\<open>train_test_split\<close> is called, after both files have been loaded. With the name
  unbound the call fails there.
\<close>

lemma ex_stance_seed_unbound:
  "stance ex_rng \<lparr>seed = None\<rparr> ex_fs ''data'' (Some ''Atheism'') = Inl (NameError ''seed'')"
  by (simp add: stance_def u_stance_path_def read_csv_def ex_paths ex_train_atheism ex_test_atheism)

subsection \<open>C2: the class numbers, and the failure on any other label\<close>



subsection \<open>C3: the test file's labels are encoded, then dropped\<close>

text \<open>
  C3, as the code has it. \<^verbatim>\<open>stance\<close> loads the test file with the same \<^verbatim>\<open>_stance\<close> as the
  training file and drops the labels it returns: the test group is the cleaned Tweets of
  the retained rows only. The load of the test file still encodes the labels, so when
  \<^verbatim>\<open>stance\<close> returns, the test file has a \<open>Stance\<close> column and every retained entry of it is
  one of the four labels (\<open>UNKNOWN\<close> is the one the SemEval test file carries).
\<close>

theorem test_labels_required_then_dropped:
  assumes "stance rng g fs data_dir topic = Inr (tr, va, te)"
  shows "\<exists>orig df0 df S. fs (path_join data_dir testfile) = Some (Inr orig) \<and>
           clean_tweets orig = Inr df0 \<and> filter_topic df0 topic = Inr df \<and>
           getattr df ''Tweet'' = Inr te \<and> getattr df ''Stance'' = Inr S \<and>
           (\<forall>s\<in>set S. s \<in> Str ` set stances)"
proof -
  from assms obtain teY where "u_stance_path fs (path_join data_dir testfile) topic = Inr (te, teY)"
    by (auto simp: stance_Inr)
  then obtain orig where o: "fs (path_join data_dir testfile) = Some (Inr orig)"
    and u: "u_stance orig topic = Inr (te, teY)"
    by (auto simp: u_stance_path_def read_csv_def split: option.splits sum.splits)
  from u obtain df0 df where c: "clean_tweets orig = Inr df0" and f: "filter_topic df0 topic = Inr df"
    and e: "encode df = Inr (te, teY)"
    by (auto simp: u_stance_Inr)
  from e obtain S where t: "map_of df ''Tweet'' = Some te" and S: "map_of df ''Stance'' = Some S"
    and l: "list_all2 (\<lambda>s y. lookup_class s = Inr y) S teY"
    by (auto simp: encode_Inr)
  have "\<forall>s\<in>set S. s \<in> Str ` set stances"
  proof
    fix s assume "s \<in> set S"
    with l obtain y where "lookup_class s = Inr y"
      by (auto simp: list_all2_conv_all_nth in_set_conv_nth)
    then show "s \<in> Str ` set stances"
      by (auto simp: lookup_class_Inr stances_def)
  qed
  with o c f t S show ?thesis by (auto simp: getattr_def)
qed

theorem test_labels_required_then_dropped_witness:
  "stance ex_rng ex_globals ex_fs ''data'' (Some ''Atheism'') =
     Inr (([Str ''#amen'', Str ''ok'', Str ''cafs''], [0, 2, 0]), ([Str ''no gods''], [1]),
          [Str ''amen'', Str ''why'']) \<and>
   (\<exists>orig df0 df S. ex_fs (path_join ''data'' testfile) = Some (Inr orig) \<and>
      clean_tweets orig = Inr df0 \<and> filter_topic df0 (Some ''Atheism'') = Inr df \<and>
      getattr df ''Tweet'' = Inr [Str ''amen'', Str ''why''] \<and> getattr df ''Stance'' = Inr S \<and>
      (\<forall>s\<in>set S. s \<in> Str ` set stances))"
  by (rule conjI [OF ex_stance test_labels_required_then_dropped [OF ex_stance]])

text \<open>
  A test file with no \<open>Stance\<close> column, and one whose \<open>Stance\<close> fields are empty: \<^verbatim>\<open>stance\<close>
  fails on both, although the training file is in order.
\<close>

theorem test_labels_required_counterexample:
  "stance ex_rng ex_globals (ex_fs_with ex_test_nocolumn) ''data'' None = Inl (AttributeError ''Stance'') \<and>
   stance ex_rng ex_globals (ex_fs_with ex_test_blank) ''data'' None = Inl (KeyError NaN)"
proof -
  have "u_stance ex_test_nocolumn None = Inl (AttributeError ''Stance'')"
    by (simp add: ex_test_nocolumn_def eval_defs)
  moreover have "u_stance ex_test_blank None = Inl (KeyError NaN)"
    by (simp add: ex_test_blank_def eval_defs)
  ultimately show ?thesis
    by (simp add: stance_def u_stance_path_def read_csv_def ex_paths_with ex_train_all)
qed

subsection \<open>C4: a topic that no row has\<close>

text \<open>
  C4, as the code has it. There is no \<open>EmptyDataset\<close> error. When no row's \<open>Target\<close> equals
  the topic (and the columns are there and the Tweets are strings), \<^verbatim>\<open>_stance\<close> raises
  nothing and returns two empty sequences. In \<^verbatim>\<open>stance\<close>, an empty result for the training
  file makes the load fail, with the \<open>ValueError\<close> of \<^verbatim>\<open>train_test_split\<close> on an empty
  training set; an empty result for the test file alone does not: \<^verbatim>\<open>stance\<close> returns, with
  an empty test group.
\<close>

theorem empty_filter_outcomes:
  "(clean_tweets orig = Inr df0 \<and> getitem orig ''Target'' = Inr G \<and> Str t \<notin> set G \<and>
    getattr orig ''Stance'' = Inr S \<longrightarrow>
      u_stance orig (Some t) = Inr ([], [])) \<and>
   (u_stance_path fs (path_join data_dir trainfile) topic = Inr ([], Y) \<and>
    u_stance_path fs (path_join data_dir testfile) topic = Inr (teX, teY) \<and>
    seed g = Some sd \<longrightarrow>
      stance rng g fs data_dir topic = Inl ValueError) \<and>
   (u_stance_path fs' (path_join data_dir trainfile) topic = Inr (X', Y') \<and>
    u_stance_path fs' (path_join data_dir testfile) topic = Inr ([], teY') \<and>
    seed g = Some sd \<and> 2 \<le> length X' \<and> length Y' = length X' \<and> 0 \<le> sd \<and> sd < 2 ^ 32 \<longrightarrow>
      (\<exists>tr va. stance rng g fs' data_dir topic = Inr (tr, va, [])))"
proof (intro conjI impI)
  assume a: "clean_tweets orig = Inr df0 \<and> getitem orig ''Target'' = Inr G \<and> Str t \<notin> set G \<and>
    getattr orig ''Stance'' = Inr S"
  then obtain T where df0: "df0 = setitem orig ''Tweet'' T"
    by (auto simp: clean_tweets_Inr)
  have G: "map_of df0 ''Target'' = Some G" and S: "map_of df0 ''Stance'' = Some S"
    and T: "map_of df0 ''Tweet'' = Some T"
    using a by (auto simp: df0 map_of_setitem getitem_def getattr_def split: option.splits)
  have none: "select (eq_mask G t) s = []" for s :: series
    using a by (intro select_all_False) (auto simp: eq_mask_def)
  have f: "filter_topic df0 (Some t) = Inr (loc df0 (eq_mask G t))"
    using G by (simp add: filter_topic_def getitem_def)
  have "encode (loc df0 (eq_mask G t)) = Inr ([], [])"
    using T S by (simp add: encode_def getattr_def map_of_loc none)
  with a f show "u_stance orig (Some t) = Inr ([], [])" by (simp add: u_stance_def)
next
  assume "u_stance_path fs (path_join data_dir trainfile) topic = Inr ([], Y) \<and>
    u_stance_path fs (path_join data_dir testfile) topic = Inr (teX, teY) \<and> seed g = Some sd"
  then have "stance rng g fs data_dir topic =
           (case train_test_split rng ([] :: series) Y sd of
              Inl e \<Rightarrow> Inl e
            | Inr (a, b, c, d) \<Rightarrow> Inr ((a, c), (b, d), teX))"
    by (intro stance_eq) simp_all
  then show "stance rng g fs data_dir topic = Inl ValueError"
    by (simp add: train_test_split_small)
next
  assume a: "u_stance_path fs' (path_join data_dir trainfile) topic = Inr (X', Y') \<and>
    u_stance_path fs' (path_join data_dir testfile) topic = Inr ([], teY') \<and>
    seed g = Some sd \<and> 2 \<le> length X' \<and> length Y' = length X' \<and> 0 \<le> sd \<and> sd < 2 ^ 32"
  then have st: "stance rng g fs' data_dir topic =
           (case train_test_split rng X' Y' sd of
              Inl e \<Rightarrow> Inl e
            | Inr (a, b, c, d) \<Rightarrow> Inr ((a, c), (b, d), []))"
    by (intro stance_eq) simp_all
  from a have "n_test_of (length X') < length X'" by (simp add: n_test_of_less)
  with a obtain a' b' c' d' where "train_test_split rng X' Y' sd = Inr (a', b', c', d')"
    by (simp add: train_test_split_Inr)
  with st show "\<exists>tr va. stance rng g fs' data_dir topic = Inr (tr, va, [])" by simp
qed

theorem empty_filter_outcomes_witness:
  "u_stance ex_test_other (Some ''Atheism'') = Inr ([], []) \<and>
   stance ex_rng ex_globals ex_fs ''data'' (Some ''Feminist Movement'') = Inl ValueError \<and>
   (\<exists>tr va. stance ex_rng ex_globals (ex_fs_with ex_test_other) ''data'' (Some ''Atheism'') =
      Inr (tr, va, []))"
proof -
  have n: "Str ''Atheism'' \<notin> set [Str ''Hillary Clinton'']" by simp
  have r: "2 \<le> length [Str ''cafs'', Str ''no gods'', Str ''#amen'', Str ''ok'']"
    "length [0, 1, 0, 2 :: int] = length [Str ''cafs'', Str ''no gods'', Str ''#amen'', Str ''ok'']"
    "(0::int) \<le> 3535999445" "(3535999445::int) < 2 ^ 32"
    by simp_all
  note t = empty_filter_outcomes [of ex_test_other ex_test_other "[Str ''Hillary Clinton'']"
      "''Atheism''" "[Str ''UNKNOWN'']" ex_fs "''data''" "Some ''Feminist Movement''" "[]" "[]" "[]"
      ex_globals 3535999445 ex_rng]
  note t' = empty_filter_outcomes [where fs' = "ex_fs_with ex_test_other" and data_dir = "''data''"
      and topic = "Some ''Atheism''" and g = ex_globals and sd = 3535999445 and rng = ex_rng
      and X' = "[Str ''cafs'', Str ''no gods'', Str ''#amen'', Str ''ok'']" and Y' = "[0, 1, 0, 2]"
      and teY' = "[]"]
  have a: "u_stance ex_test_other (Some ''Atheism'') = Inr ([], [])"
    using t ex_test_other_stages n by blast
  have b: "stance ex_rng ex_globals ex_fs ''data'' (Some ''Feminist Movement'') = Inl ValueError"
    using t ex_u_feminist ex_seed by blast
  have c: "\<exists>tr va. stance ex_rng ex_globals (ex_fs_with ex_test_other) ''data'' (Some ''Atheism'') =
      Inr (tr, va, [])"
    using t' ex_u_with_other ex_seed r by blast
  from a b c show ?thesis by (intro conjI)
qed

text \<open>
  \<^verbatim>\<open>_stance\<close> on a topic that the training file does not have returns the empty pair,
  and \<^verbatim>\<open>stance\<close> with a test file that has no row on the topic returns an empty test
  group.
\<close>

theorem empty_filter_silent_counterexample:
  "u_stance ex_train (Some ''Feminist Movement'') = Inr ([], []) \<and>
   stance ex_rng ex_globals (ex_fs_with ex_test_other) ''data'' (Some ''Atheism'') =
     Inr (([Str ''#amen'', Str ''ok'', Str ''cafs''], [0, 2, 0]), ([Str ''no gods''], [1]), [])"
proof -
  have "stance ex_rng ex_globals (ex_fs_with ex_test_other) ''data'' (Some ''Atheism'') =
     Inr (([Str ''#amen'', Str ''ok'', Str ''cafs''], [0, 2, 0]), ([Str ''no gods''], [1]), [])"
    by (simp add: stance_eq [OF ex_u_with_other ex_seed] ex_split)
  with ex_train_feminist show ?thesis by (rule conjI)
qed

subsection \<open>C5: the sizes of the two parts\<close>

text \<open>
  C5, as the code has it. Let \<^verbatim>\<open>_stance\<close> load \<open>n\<close> rows from a well-formed training file,
  let the test file load, and let the global seed be bound to a value that numpy accepts.
  The validation fraction is the literal 0.2. If \<open>n\<close> is at least 2, \<^verbatim>\<open>stance\<close> returns: the
  training and validation parts together have \<open>n\<close> items, texts and labels have one length
  in each part, and the validation part has the ceiling of a fifth of \<open>n\<close> items, which is
  within 1 of \<^verbatim>\<open>round(0.2 * n)\<close>. If \<open>n\<close> is 0 or 1 the ceiling leaves no training item
  and \<^verbatim>\<open>stance\<close> raises \<open>ValueError\<close> instead of splitting. The generator is asked to return
  a permutation of \<open>0, ..., n - 1\<close>.
\<close>

theorem split_sizes:
  assumes "fs (path_join data_dir trainfile) = Some (Inr orig)" and "frame_ok orig"
    and "u_stance orig topic = Inr (X, Y)"
    and "u_stance_path fs (path_join data_dir testfile) topic = Inr (teX, teY)"
    and "seed g = Some sd" and "0 \<le> sd" and "sd < 2 ^ 32"
    and "\<And>sd n. mset (rng sd n) = mset [0..<n]"
  shows "(if length X < 2 then stance rng g fs data_dir topic = Inl ValueError
          else (\<exists>trX trY vaX vaY.
                  stance rng g fs data_dir topic = Inr ((trX, trY), (vaX, vaY), teX) \<and>
                  length trX + length vaX = length X \<and>
                  length trY = length trX \<and> length vaY = length vaX \<and>
                  length vaX = (length X + 4) div 5 \<and>
                  \<bar>int (length vaX) - int (spec_round_fifth (length X))\<bar> \<le> 1))"
proof -
  have u: "u_stance_path fs (path_join data_dir trainfile) topic = Inr (X, Y)"
    using assms(1,3) by (simp add: u_stance_path_def read_csv_def)
  note st = stance_eq [OF u assms(4,5), of rng]
  have lY: "length Y = length X" using u_stance_lengths[OF assms(2,3)] by simp
  show ?thesis
  proof (cases "length X < 2")
    case True
    have "stance rng g fs data_dir topic = Inl ValueError"
      unfolding st train_test_split_small [OF True] by simp
    then show ?thesis unfolding if_P [OF True] .
  next
    case False
    define k where "k = n_test_of (length X)"
    define itr where "itr = take (length X - k) (drop k (rng sd (length X)))"
    define iva where "iva = take k (rng sd (length X))"
    have k: "k < length X" using False by (simp add: k_def n_test_of_less)
    have len: "length (rng sd (length X)) = length X" using perm_facts(1)[OF assms(8)] .
    have litr: "length itr = length X - k" and liva: "length iva = k"
      using len k by (simp_all add: itr_def iva_def)
    have t: "train_test_split rng X Y sd =
               Inr (map ((!) X) itr, map ((!) X) iva, map ((!) Y) itr, map ((!) Y) iva)"
      using lY k assms(6,7) unfolding train_test_split_Inr itr_def iva_def k_def by simp
    have s: "stance rng g fs data_dir topic =
               Inr ((map ((!) X) itr, map ((!) Y) itr), (map ((!) X) iva, map ((!) Y) iva), teX)"
      unfolding st t by simp
    have f1: "length (map ((!) X) itr) + length (map ((!) X) iva) = length X"
      using litr liva k by simp
    have f2: "length (map ((!) Y) itr) = length (map ((!) X) itr)"
      and f3: "length (map ((!) Y) iva) = length (map ((!) X) iva)" by simp_all
    have f4: "length (map ((!) X) iva) = (length X + 4) div 5"
      using liva by (simp add: k_def n_test_of_def)
    have "\<bar>int k - int (spec_round_fifth (length X))\<bar> \<le> 1"
      using n_test_near_round[of "length X"] unfolding k_def by auto
    then have f5: "\<bar>int (length (map ((!) X) iva)) - int (spec_round_fifth (length X))\<bar> \<le> 1"
      using liva by simp
    have "\<exists>trX trY vaX vaY.
                  stance rng g fs data_dir topic = Inr ((trX, trY), (vaX, vaY), teX) \<and>
                  length trX + length vaX = length X \<and>
                  length trY = length trX \<and> length vaY = length vaX \<and>
                  length vaX = (length X + 4) div 5 \<and>
                  \<bar>int (length vaX) - int (spec_round_fifth (length X))\<bar> \<le> 1"
      by (rule exI [of _ "map ((!) X) itr"], rule exI [of _ "map ((!) Y) itr"],
          rule exI [of _ "map ((!) X) iva"], rule exI [of _ "map ((!) Y) iva"])
         (intro conjI s f1 f2 f3 f4 f5)
    then show ?thesis unfolding if_not_P [OF False] .
  qed
qed

text \<open>The four rows on \<open>Atheism\<close>, and the single row on \<open>Hillary Clinton\<close>.\<close>

theorem split_sizes_witness:
  "(\<exists>trX trY vaX vaY.
      stance ex_rng ex_globals ex_fs ''data'' (Some ''Atheism'') =
        Inr ((trX, trY), (vaX, vaY), [Str ''amen'', Str ''why'']) \<and>
      length trX + length vaX = length [Str ''cafs'', Str ''no gods'', Str ''#amen'', Str ''ok''] \<and>
      length trY = length trX \<and> length vaY = length vaX \<and>
      length vaX = (length [Str ''cafs'', Str ''no gods'', Str ''#amen'', Str ''ok''] + 4) div 5 \<and>
      \<bar>int (length vaX) -
        int (spec_round_fifth (length [Str ''cafs'', Str ''no gods'', Str ''#amen'', Str ''ok'']))\<bar> \<le> 1) \<and>
   stance ex_rng ex_globals ex_fs ''data'' (Some ''Hillary Clinton'') = Inl ValueError"
proof -
  have r: "(0::int) \<le> 3535999445" "(3535999445::int) < 2 ^ 32" by simp_all
  have n4: "\<not> length [Str ''cafs'', Str ''no gods'', Str ''#amen'', Str ''ok''] < 2" by simp
  have n1: "length [Str ''vote''] < 2" by simp
  note a = split_sizes [where rng = ex_rng, OF ex_train_path ex_train_ok ex_train_atheism ex_u_test
      ex_seed r ex_rng_perm, unfolded if_not_P [OF n4]]
  note b = split_sizes [where rng = ex_rng, OF ex_train_path ex_train_ok ex_train_hillary
      ex_u_test_hillary ex_seed r ex_rng_perm, unfolded if_P [OF n1]]
  from a b show ?thesis by (rule conjI)
qed

text \<open>
  One retained row: nothing is assigned to either part, although \<open>round(0.2 * 1) = 0\<close> items
  for validation and one for training would add up.
\<close>

theorem split_refused_below_two_rows_counterexample:
  "u_stance_path ex_fs (path_join ''data'' trainfile) (Some ''Hillary Clinton'') =
     Inr ([Str ''vote''], [2]) \<and>
   u_stance_path ex_fs (path_join ''data'' testfile) (Some ''Hillary Clinton'') =
     Inr ([Str ''vote 2016''], [3]) \<and>
   stance ex_rng ex_globals ex_fs ''data'' (Some ''Hillary Clinton'') = Inl ValueError"
proof -
  have "train_test_split ex_rng [Str ''vote''] [2 :: int] 3535999445 = Inl ValueError"
    by (simp add: train_test_split_def n_test_of_def)
  then have "stance ex_rng ex_globals ex_fs ''data'' (Some ''Hillary Clinton'') = Inl ValueError"
    by (simp add: stance_eq [OF ex_u_train_hillary ex_u_test_hillary ex_seed])
  with ex_u_train_hillary ex_u_test_hillary show ?thesis by (intro conjI)
qed

subsection \<open>C6: the two parts are disjoint and cover the loaded rows\<close>

text \<open>
  C6. When \<^verbatim>\<open>stance\<close> returns, there are two lists of row positions, with no position twice
  in either or in both, that together are all positions of the loaded training rows; the
  training part is the rows at the first list and the validation part the rows at the
  second. So as multisets of (text, label) pairs the two parts add up to the loaded rows.
\<close>

theorem split_partitions_rows:
  assumes "stance rng g fs data_dir topic = Inr ((trX, trY), (vaX, vaY), teX)"
    and "\<And>sd n. mset (rng sd n) = mset [0..<n]"
  shows "\<exists>X Y itr iva. u_stance_path fs (path_join data_dir trainfile) topic = Inr (X, Y) \<and>
           distinct (itr @ iva) \<and> set itr \<union> set iva = {..<length X} \<and>
           trX = map ((!) X) itr \<and> trY = map ((!) Y) itr \<and>
           vaX = map ((!) X) iva \<and> vaY = map ((!) Y) iva \<and>
           mset (zip trX trY) + mset (zip vaX vaY) = mset (zip X Y)"
proof -
  from assms(1) obtain X Y teY sd where
    u: "u_stance_path fs (path_join data_dir trainfile) topic = Inr (X, Y)"
    and s: "train_test_split rng X Y sd = Inr (trX, vaX, trY, vaY)"
    by (auto simp: stance_Inr)
  let ?n = "length X" and ?k = "n_test_of (length X)"
  let ?p = "rng sd ?n"
  let ?itr = "drop ?k ?p" and ?iva = "take ?k ?p"
  note p = perm_facts[OF assms(2), of sd ?n]
  have full: "take (?n - ?k) (drop ?k ?p) = ?itr" using p(1) by simp
  from s have lY: "length Y = ?n"
    and tr: "trX = map ((!) X) ?itr" "trY = map ((!) Y) ?itr"
    and va: "vaX = map ((!) X) ?iva" "vaY = map ((!) Y) ?iva"
    unfolding train_test_split_Inr full by simp_all
  have "distinct (?iva @ ?itr)" using p(2) by simp
  then have d: "distinct (?itr @ ?iva)" unfolding distinct_append by blast
  have "set (?iva @ ?itr) = {..<?n}" using p(3) by simp
  then have c: "set ?itr \<union> set ?iva = {..<?n}" unfolding set_append by blast
  let ?row = "\<lambda>i. (X ! i, Y ! i)"
  have "mset (zip trX trY) + mset (zip vaX vaY) = mset (map ?row ?itr) + mset (map ?row ?iva)"
    unfolding tr va by (simp add: zip_map_same)
  also have "\<dots> = image_mset ?row (mset ?itr + mset ?iva)" by simp
  also have "mset ?itr + mset ?iva = mset ?p"
  proof -
    have "mset (?iva @ ?itr) = mset ?p" by simp
    then show ?thesis unfolding mset_append by (simp only: add.commute)
  qed
  also have "image_mset ?row (mset ?p) = image_mset ?row (mset [0..<?n])"
    using assms(2)[of sd ?n] by simp
  also have "\<dots> = mset (map ?row [0..<?n])" by (simp only: mset_map)
  also have "\<dots> = mset (zip X Y)" by (simp only: zip_as_map [OF lY [symmetric]])
  finally have m: "mset (zip trX trY) + mset (zip vaX vaY) = mset (zip X Y)" .
  from u d c tr va m show ?thesis by blast
qed

theorem split_partitions_rows_witness:
  "stance ex_rng ex_globals ex_fs ''data'' (Some ''Atheism'') =
     Inr (([Str ''#amen'', Str ''ok'', Str ''cafs''], [0, 2, 0]), ([Str ''no gods''], [1]),
          [Str ''amen'', Str ''why'']) \<and>
   (\<exists>X Y itr iva. u_stance_path ex_fs (path_join ''data'' trainfile) (Some ''Atheism'') = Inr (X, Y) \<and>
      distinct (itr @ iva) \<and> set itr \<union> set iva = {..<length X} \<and>
      [Str ''#amen'', Str ''ok'', Str ''cafs''] = map ((!) X) itr \<and> [0, 2, 0] = map ((!) Y) itr \<and>
      [Str ''no gods''] = map ((!) X) iva \<and> [1] = map ((!) Y) iva \<and>
      mset (zip [Str ''#amen'', Str ''ok'', Str ''cafs''] [0, 2, 0]) + mset (zip [Str ''no gods''] [1]) =
        mset (zip X Y))"
  by (rule conjI [OF ex_stance split_partitions_rows [OF ex_stance ex_rng_perm]])

subsection \<open>C7: the two sequences of \<^verbatim>\<open>_stance\<close> are aligned and in file order\<close>

text \<open>
  C7. For every well-formed frame and optional topic, when \<^verbatim>\<open>_stance\<close> returns \<open>(X, Y)\<close> the two
  sequences have one length, and their \<open>k\<close>-th entries are the cleaned Tweet and the class
  number of the \<open>k\<close>-th retained row of the file: the retained rows are listed in strictly
  increasing position, so nothing is reordered.
\<close>

theorem stance_rows_aligned_in_order:
  assumes "frame_ok orig" and "u_stance orig topic = Inr (X, Y)"
  shows "length X = length Y \<and>
         (\<exists>T S. getitem orig ''Tweet'' = Inr T \<and> getattr orig ''Stance'' = Inr S \<and>
            list_all2 (\<lambda>i x. clean_ascii (T ! i) = Inr x) (retained_rows orig topic) X \<and>
            list_all2 (\<lambda>i y. lookup_class (S ! i) = Inr y) (retained_rows orig topic) Y) \<and>
         sorted_wrt (<) (retained_rows orig topic) \<and>
         set (retained_rows orig topic) = {i. i < nrows orig \<and> retained orig topic i}"
proof -
  let ?idx = "retained_rows orig topic"
  from u_stance_rows[OF assms] obtain ts S where T: "map_of orig ''Tweet'' = Some (map Str ts)"
    and S: "map_of orig ''Stance'' = Some S" and lts: "length ts = nrows orig"
    and X: "X = map (\<lambda>i. Str (filter (\<lambda>c. py_ord c < 128) (ts ! i))) ?idx"
    and Y: "list_all2 (\<lambda>i y. lookup_class (S ! i) = Inr y) ?idx Y"
    by blast
  have len: "length X = length Y"
    using X list_all2_lengthD[OF Y] by simp
  have "\<forall>i\<in>set ?idx. i < length ts" using lts by (simp add: set_retained_rows)
  then have "list_all2 (\<lambda>i x. clean_ascii (map Str ts ! i) = Inr x) ?idx X"
    unfolding X by (simp add: list_all2_map2 list_all2_same clean_ascii_filter del: clean_ascii.simps)
  with T S Y have "\<exists>T S. getitem orig ''Tweet'' = Inr T \<and> getattr orig ''Stance'' = Inr S \<and>
            list_all2 (\<lambda>i x. clean_ascii (T ! i) = Inr x) ?idx X \<and>
            list_all2 (\<lambda>i y. lookup_class (S ! i) = Inr y) ?idx Y"
    by (auto simp: getitem_def getattr_def)
  with len show ?thesis
    by (simp add: sorted_retained_rows set_retained_rows)
qed

theorem stance_rows_aligned_in_order_witness:
  "frame_ok ex_train \<and>
   u_stance ex_train (Some ''Atheism'') =
     Inr ([Str ''cafs'', Str ''no gods'', Str ''#amen'', Str ''ok''], [0, 1, 0, 2]) \<and>
   retained_rows ex_train (Some ''Atheism'') = [0, 1, 3, 5] \<and>
   (\<exists>T S. getitem ex_train ''Tweet'' = Inr T \<and> getattr ex_train ''Stance'' = Inr S \<and>
      list_all2 (\<lambda>i x. clean_ascii (T ! i) = Inr x) [0, 1, 3, 5]
        [Str ''cafs'', Str ''no gods'', Str ''#amen'', Str ''ok''] \<and>
      list_all2 (\<lambda>i y. lookup_class (S ! i) = Inr y) [0, 1, 3, 5] [0, 1, 0, 2])"
proof -
  have r: "retained_rows ex_train (Some ''Atheism'') = [0, 1, 3, 5]"
    by (simp add: retained_rows_def retained_def ex_train_def nrows_def upt_rec)
  show ?thesis
    using stance_rows_aligned_in_order [OF ex_train_ok ex_train_atheism] ex_train_ok ex_train_atheism
    unfolding r by blast
qed

subsection \<open>C8: the Tweets lose exactly their characters from 128 on\<close>

text \<open>
  C8. When \<^verbatim>\<open>_stance\<close> returns \<open>(X, Y)\<close> on a well-formed frame, every Tweet of the file is a
  string, the cleaning stage replaces every one of them, retained or not, by the same
  function of it: the string without its characters of code point 128 or more, the other
  characters kept in order. \<open>X\<close> is these strings at the retained rows, and no character
  of \<open>X\<close> has a code point of 128 or more.
\<close>

theorem tweets_cleaned_to_ascii:
  assumes "frame_ok orig" and "u_stance orig topic = Inr (X, Y)"
  shows "\<exists>ts. getitem orig ''Tweet'' = Inr (map Str ts) \<and>
           clean_tweets orig =
             Inr (setitem orig ''Tweet'' (map (\<lambda>t. Str (filter (\<lambda>c. py_ord c < 128) t)) ts)) \<and>
           X = map (\<lambda>i. Str (filter (\<lambda>c. py_ord c < 128) (ts ! i))) (retained_rows orig topic) \<and>
           (\<forall>x\<in>set X. \<exists>r. x = Str r \<and> (\<forall>c\<in>set r. py_ord c < 128))"
proof -
  from u_stance_rows[OF assms] obtain ts where T: "map_of orig ''Tweet'' = Some (map Str ts)"
    and X: "X = map (\<lambda>i. Str (filter (\<lambda>c. py_ord c < 128) (ts ! i))) (retained_rows orig topic)"
    by blast
  have c: "clean_tweets orig =
             Inr (setitem orig ''Tweet'' (map (\<lambda>t. Str (filter (\<lambda>c. py_ord c < 128) t)) ts))"
    using T by (simp add: clean_tweets_def getitem_def traverse_clean_ascii_Str)
  have "\<forall>x\<in>set X. \<exists>r. x = Str r \<and> (\<forall>c\<in>set r. py_ord c < 128)"
    unfolding X by auto
  with T X c show ?thesis by (auto simp: getitem_def)
qed

theorem tweets_cleaned_to_ascii_witness:
  "frame_ok ex_train \<and>
   u_stance ex_train (Some ''Atheism'') =
     Inr ([Str ''cafs'', Str ''no gods'', Str ''#amen'', Str ''ok''], [0, 1, 0, 2]) \<and>
   (\<exists>ts. getitem ex_train ''Tweet'' = Inr (map Str ts) \<and>
      clean_tweets ex_train =
        Inr (setitem ex_train ''Tweet'' (map (\<lambda>t. Str (filter (\<lambda>c. py_ord c < 128) t)) ts)) \<and>
      [Str ''cafs'', Str ''no gods'', Str ''#amen'', Str ''ok''] =
        map (\<lambda>i. Str (filter (\<lambda>c. py_ord c < 128) (ts ! i))) (retained_rows ex_train (Some ''Atheism'')) \<and>
      (\<forall>x\<in>set [Str ''cafs'', Str ''no gods'', Str ''#amen'', Str ''ok''].
          \<exists>r. x = Str r \<and> (\<forall>c\<in>set r. py_ord c < 128)))"
  by (rule conjI [OF ex_train_ok conjI [OF ex_train_atheism
        tweets_cleaned_to_ascii [OF ex_train_ok ex_train_atheism]]])

subsection \<open>C9: the topic filter\<close>

text \<open>
  C9. On a well-formed frame the filter keeps the column names and, in every column, the
  entries at exactly the rows whose \<open>Target\<close> equals the topic string (all rows without a
  topic), in order; the \<open>Target\<close> column it leaves is the entries equal to the topic.
  Filtering the result again with the same topic changes nothing. \<^verbatim>\<open>stance\<close> filters the
  training file and the test file with the one topic it is given, and splits what the
  filter left of the training file.
\<close>

theorem topic_filter_exact_idempotent_uniform:
  "(frame_ok df \<and> filter_topic df topic = Inr df' \<longrightarrow>
      map fst df' = map fst df \<and>
      (\<forall>name s. map_of df name = Some s \<longrightarrow>
         map_of df' name = Some (map ((!) s) (retained_rows df topic))) \<and>
      (\<forall>t G. topic = Some t \<and> map_of df ''Target'' = Some G \<longrightarrow>
         map_of df' ''Target'' = Some (filter (\<lambda>g. g = Str t) G)) \<and>
      filter_topic df' topic = Inr df') \<and>
   filter_topic df None = Inr df \<and>
   (stance rng g fs data_dir topic = Inr (tr, va, te) \<longrightarrow>
      (\<exists>X Y teY sd. u_stance_path fs (path_join data_dir trainfile) topic = Inr (X, Y) \<and>
                 u_stance_path fs (path_join data_dir testfile) topic = Inr (te, teY) \<and>
                 seed g = Some sd \<and>
                 train_test_split rng X Y sd = Inr (fst tr, fst va, snd tr, snd va)))"
proof (intro conjI impI)
  assume a: "frame_ok df \<and> filter_topic df topic = Inr df'"
  then have ok: "frame_ok df" and f: "filter_topic df topic = Inr df'" by simp_all
  show "map fst df' = map fst df"
    using f by (cases topic) (auto simp: filter_topic_Inr names_loc)
  show "\<forall>name s. map_of df name = Some s \<longrightarrow>
         map_of df' name = Some (map ((!) s) (retained_rows df topic))"
    using filter_topic_column[OF ok f] by blast
  show "\<forall>t G. topic = Some t \<and> map_of df ''Target'' = Some G \<longrightarrow>
         map_of df' ''Target'' = Some (filter (\<lambda>g. g = Str t) G)"
    using f by (auto simp: filter_topic_Inr map_of_loc select_eq_mask_self)
  show "filter_topic df' topic = Inr df'"
  proof (cases topic)
    case None
    with f show ?thesis by (simp add: filter_topic_def)
  next
    case (Some t)
    with f obtain G where G: "map_of df ''Target'' = Some G" and df': "df' = loc df (eq_mask G t)"
      by (auto simp: filter_topic_Inr)
    have "map_of df' ''Target'' = Some (select (eq_mask G t) G)"
      by (simp add: df' map_of_loc G)
    then have "filter_topic df' topic = Inr (loc df' (eq_mask (select (eq_mask G t) G) t))"
      using Some by (simp add: filter_topic_def getitem_def)
    then show ?thesis
      unfolding df' by (simp add: loc_loc_same[OF ok G])
  qed
next
  show "filter_topic df None = Inr df" by (simp add: filter_topic_def)
next
  assume "stance rng g fs data_dir topic = Inr (tr, va, te)"
  then show "\<exists>X Y teY sd. u_stance_path fs (path_join data_dir trainfile) topic = Inr (X, Y) \<and>
                 u_stance_path fs (path_join data_dir testfile) topic = Inr (te, teY) \<and>
                 seed g = Some sd \<and>
                 train_test_split rng X Y sd = Inr (fst tr, fst va, snd tr, snd va)"
    by (simp add: stance_Inr)
qed

text \<open>
  \<open>ex_train\<close> has a row on \<open>atheism\<close> in lower case: the filter on \<open>Atheism\<close> drops it.
\<close>

theorem topic_filter_exact_idempotent_uniform_witness:
  "frame_ok ex_train \<and> filter_topic ex_train (Some ''Atheism'') = Inr ex_atheism \<and>
   map fst ex_atheism = map fst ex_train \<and>
   filter_topic ex_atheism (Some ''Atheism'') = Inr ex_atheism \<and>
   filter_topic ex_train None = Inr ex_train \<and>
   (\<exists>X Y teY sd.
      u_stance_path ex_fs (path_join ''data'' trainfile) (Some ''Atheism'') = Inr (X, Y) \<and>
      u_stance_path ex_fs (path_join ''data'' testfile) (Some ''Atheism'') =
        Inr ([Str ''amen'', Str ''why''], teY) \<and>
      seed ex_globals = Some sd \<and>
      train_test_split ex_rng X Y sd =
        Inr ([Str ''#amen'', Str ''ok'', Str ''cafs''], [Str ''no gods''], [0, 2, 0], [1]))"
proof -
  note t = topic_filter_exact_idempotent_uniform [of ex_train "Some ''Atheism''" ex_atheism
      ex_rng ex_globals ex_fs "''data''" "([Str ''#amen'', Str ''ok'', Str ''cafs''], [0, 2, 0])"
      "([Str ''no gods''], [1])" "[Str ''amen'', Str ''why'']"]
  have h: "frame_ok ex_train \<and> filter_topic ex_train (Some ''Atheism'') = Inr ex_atheism"
    using ex_train_ok ex_atheism_filter by (rule conjI)
  from t have a: "map fst ex_atheism = map fst ex_train"
    and b: "filter_topic ex_atheism (Some ''Atheism'') = Inr ex_atheism"
    and c: "filter_topic ex_train None = Inr ex_train"
    using h by blast+
  from t ex_stance have "\<exists>X Y teY sd.
      u_stance_path ex_fs (path_join ''data'' trainfile) (Some ''Atheism'') = Inr (X, Y) \<and>
      u_stance_path ex_fs (path_join ''data'' testfile) (Some ''Atheism'') =
        Inr ([Str ''amen'', Str ''why''], teY) \<and>
      seed ex_globals = Some sd \<and>
      train_test_split ex_rng X Y sd =
        Inr ([Str ''#amen'', Str ''ok'', Str ''cafs''], [Str ''no gods''], [0, 2, 0], [1])"
    by simp
  with h a b c show ?thesis by (intro conjI) simp_all
qed

subsection \<open>C10: cleaning touches the Tweet column only\<close>

text \<open>
  C10. The cleaning stage keeps the column names and every column but \<open>Tweet\<close>: \<open>Target\<close>
  and \<open>Stance\<close> are read as the file has them. So the labels that \<^verbatim>\<open>_stance\<close> returns are
  the class numbers of the \<open>Stance\<close> column of the uncleaned frame, filtered on its
  uncleaned \<open>Target\<close>.
\<close>

theorem cleaning_changes_only_tweets:
  assumes "clean_tweets orig = Inr df0"
  shows "map fst df0 = map fst orig \<and>
         (\<forall>name. name \<noteq> ''Tweet'' \<longrightarrow> map_of df0 name = map_of orig name) \<and>
         getitem df0 ''Target'' = getitem orig ''Target'' \<and>
         getattr df0 ''Stance'' = getattr orig ''Stance'' \<and>
         (\<forall>df X Y. filter_topic df0 topic = Inr df \<and> encode df = Inr (X, Y) \<longrightarrow>
            (\<exists>raw S. filter_topic orig topic = Inr raw \<and> getattr raw ''Stance'' = Inr S \<and>
                     traverse lookup_class S = Inr Y))"
proof -
  from assms obtain ts T' where T: "map_of orig ''Tweet'' = Some (map Str ts)"
    and df0: "df0 = setitem orig ''Tweet'' T'"
    by (auto simp: clean_tweets_Inr)
  have names: "map fst df0 = map fst orig"
    unfolding df0 using T by (rule names_setitem)
  have other: "map_of df0 name = map_of orig name" if "name \<noteq> ''Tweet''" for name
    using that by (simp add: df0 map_of_setitem)
  have tg: "getitem df0 ''Target'' = getitem orig ''Target''"
    and st: "getattr df0 ''Stance'' = getattr orig ''Stance''"
    by (simp_all add: getitem_def getattr_def other)
  have enc: "\<exists>raw S. filter_topic orig topic = Inr raw \<and> getattr raw ''Stance'' = Inr S \<and>
                     traverse lookup_class S = Inr Y"
    if f: "filter_topic df0 topic = Inr df" and e: "encode df = Inr (X, Y)" for df X Y
  proof -
    from e obtain S where S: "map_of df ''Stance'' = Some S"
      and Y: "traverse lookup_class S = Inr Y"
      by (auto simp: encode_Inr dest: list_all2_traverse)
    show ?thesis
    proof (cases topic)
      case None
      with f have "df = df0" by (simp add: filter_topic_def)
      with S have "getattr orig ''Stance'' = Inr S" by (simp add: getattr_def other)
      with None Y show ?thesis by (auto simp: filter_topic_def)
    next
      case (Some t)
      with f obtain G where G: "map_of df0 ''Target'' = Some G" and df: "df = loc df0 (eq_mask G t)"
        by (auto simp: filter_topic_Inr)
      have G': "map_of orig ''Target'' = Some G" using G by (simp add: other)
      have "map_of (loc orig (eq_mask G t)) ''Stance'' = Some S"
        using S by (simp add: df map_of_loc other)
      then have "getattr (loc orig (eq_mask G t)) ''Stance'' = Inr S" by (simp add: getattr_def)
      moreover have "filter_topic orig topic = Inr (loc orig (eq_mask G t))"
        using Some G' by (simp add: filter_topic_def getitem_def)
      ultimately show ?thesis using Y by blast
    qed
  qed
  from names other tg st enc show ?thesis by blast
qed

text \<open>
  A \<open>Target\<close> with the character 233 is matched by the topic with that character, and not
  by the topic without it.
\<close>

theorem cleaning_changes_only_tweets_witness:
  "clean_tweets ex_latin = Inr (setitem ex_latin ''Tweet'' [Str ''ol'', Str ''x'']) \<and>
   getitem (setitem ex_latin ''Tweet'' [Str ''ol'', Str ''x'']) ''Target'' =
     Inr [Str (''Caf'' @ [CHR 0xE9]), Str ''Caf''] \<and>
   u_stance ex_latin (Some (''Caf'' @ [CHR 0xE9])) = Inr ([Str ''ol''], [1]) \<and>
   u_stance ex_latin (Some ''Caf'') = Inr ([Str ''x''], [2])"
proof -
  from cleaning_changes_only_tweets [OF ex_latin_clean, of None]
  have "getitem (setitem ex_latin ''Tweet'' [Str ''ol'', Str ''x'']) ''Target'' =
          getitem ex_latin ''Target''"
    by blast
  also have "\<dots> = Inr [Str (''Caf'' @ [CHR 0xE9]), Str ''Caf'']"
    by (simp add: ex_latin_def getitem_def)
  finally have t: "getitem (setitem ex_latin ''Tweet'' [Str ''ol'', Str ''x'']) ''Target'' =
     Inr [Str (''Caf'' @ [CHR 0xE9]), Str ''Caf'']" .
  have "u_stance ex_latin (Some (''Caf'' @ [CHR 0xE9])) = Inr ([Str ''ol''], [1])"
    "u_stance ex_latin (Some ''Caf'') = Inr ([Str ''x''], [2])"
    by (simp_all add: ex_latin_def eval_defs)
  with ex_latin_clean t show ?thesis by (intro conjI)
qed

end
